theory Spec2Isabelle
  imports Complex_Main
begin

section \<open>Python values\<close>

text \<open>
  The analytical core of ChartPredictor (\<^verbatim>\<open>src/core/chart_extractor.py\<close> and
  \<^verbatim>\<open>src/core/predictor.py\<close>) is embedded function by function. A Python float that
  is read from the input (a price, a volume, a configuration value) is a real number. A
  float that numpy or pandas computes with a division can also be infinite or not a
  number, because numpy divides by zero without raising; such values are \<open>xfloat\<close>s.
  Plain Python float division by zero raises, and is an error value of the model.
  Rounding error and signed zeros are not represented.
\<close>

datatype py_error = ZeroDivisionError | AttributeError | TypeError | ValueError | IndexError

datatype xfloat = Fin real | PInf | NInf | NaN

text \<open>\<^verbatim>\<open>bool(x)\<close> of a float: only zero is false (\<^verbatim>\<open>nan\<close> and \<^verbatim>\<open>inf\<close> are true).\<close>

fun truthy :: "xfloat \<Rightarrow> bool" where
  "truthy (Fin x) = (x \<noteq> 0)"
| "truthy PInf = True"
| "truthy NInf = True"
| "truthy NaN = True"

text \<open>\<^verbatim>\<open>if v:\<close> on the result of \<^verbatim>\<open>dict.get\<close>, which is \<^verbatim>\<open>None\<close> for an absent key.\<close>

fun truthy_opt :: "xfloat option \<Rightarrow> bool" where
  "truthy_opt None = False"
| "truthy_opt (Some v) = truthy v"

text \<open>\<^verbatim>\<open>if v:\<close> on an \<^verbatim>\<open>Optional[float]\<close> that holds a Python float.\<close>

fun truthy_real :: "real option \<Rightarrow> bool" where
  "truthy_real None = False"
| "truthy_real (Some v) = (v \<noteq> 0)"

text \<open>\<^verbatim>\<open>a < b\<close> on floats: every comparison with \<^verbatim>\<open>nan\<close> is false.\<close>

fun xlt :: "xfloat \<Rightarrow> xfloat \<Rightarrow> bool" where
  "xlt (Fin a) (Fin b) = (a < b)"
| "xlt (Fin a) PInf = True"
| "xlt NInf (Fin b) = True"
| "xlt NInf PInf = True"
| "xlt _ _ = False"

fun xneg :: "xfloat \<Rightarrow> xfloat" where
  "xneg (Fin a) = Fin (- a)"
| "xneg PInf = NInf"
| "xneg NInf = PInf"
| "xneg NaN = NaN"

fun xadd :: "xfloat \<Rightarrow> xfloat \<Rightarrow> xfloat" where
  "xadd (Fin a) (Fin b) = Fin (a + b)"
| "xadd NaN _ = NaN"
| "xadd _ NaN = NaN"
| "xadd PInf NInf = NaN"
| "xadd NInf PInf = NaN"
| "xadd PInf _ = PInf"
| "xadd _ PInf = PInf"
| "xadd NInf _ = NInf"
| "xadd _ NInf = NInf"

definition xsub :: "xfloat \<Rightarrow> xfloat \<Rightarrow> xfloat" where
  "xsub a b = xadd a (xneg b)"

text \<open>
  numpy's float division: a finite value over zero is an infinity of the sign of the
  numerator, zero over zero and infinity over infinity are \<^verbatim>\<open>nan\<close>, a finite value
  over an infinity is zero.
\<close>

fun xdiv :: "xfloat \<Rightarrow> xfloat \<Rightarrow> xfloat" where
  "xdiv (Fin a) (Fin b) =
     (if b \<noteq> 0 then Fin (a / b)
      else if a > 0 then PInf else if a < 0 then NInf else NaN)"
| "xdiv NaN _ = NaN"
| "xdiv _ NaN = NaN"
| "xdiv (Fin a) PInf = Fin 0"
| "xdiv (Fin a) NInf = Fin 0"
| "xdiv PInf (Fin b) = (if b \<ge> 0 then PInf else NInf)"
| "xdiv NInf (Fin b) = (if b \<ge> 0 then NInf else PInf)"
| "xdiv _ _ = NaN"

text \<open>\<^verbatim>\<open>pd.isna\<close> / \<^verbatim>\<open>np.isnan\<close>.\<close>

fun isna :: "xfloat \<Rightarrow> bool" where
  "isna NaN = True"
| "isna _ = False"

subsection \<open>Rounding and formatting\<close>

text \<open>\<^verbatim>\<open>round(x, n)\<close>: to the nearest multiple of \<open>10\<^sup>-\<^sup>n\<close>, a tie to the even one.\<close>

definition round_half_even :: "real \<Rightarrow> int" where
  "round_half_even x =
     (let f = \<lfloor>x\<rfloor>; d = x - of_int f
      in if d < 1 / 2 then f else if d > 1 / 2 then f + 1
         else if even f then f else f + 1)"

definition py_round :: "real \<Rightarrow> nat \<Rightarrow> real" where
  "py_round x n = of_int (round_half_even (x * 10 ^ n)) / 10 ^ n"

fun xround :: "xfloat \<Rightarrow> nat \<Rightarrow> xfloat" where
  "xround (Fin x) n = Fin (py_round x n)"
| "xround v n = v"

definition digit_char :: "nat \<Rightarrow> char" where
  "digit_char d = ''0123456789'' ! d"

function str_nat :: "nat \<Rightarrow> string" where
  "str_nat n = (if n < 10 then [digit_char n] else str_nat (n div 10) @ [digit_char (n mod 10)])"
  by pat_completeness auto
termination
  by (relation "measure id") auto

declare str_nat.simps [simp del]

text \<open>\<^verbatim>\<open>str(i)\<close> of an int, as an f-string writes it.\<close>

definition str_int :: "int \<Rightarrow> string" where
  "str_int i = (if i < 0 then ''-'' @ str_nat (nat (- i)) else str_nat (nat i))"

text \<open>\<^verbatim>\<open>f"{x:.<d>f}"\<close>: fixed point with \<open>d\<close> decimals.\<close>

definition fmt_fixed :: "nat \<Rightarrow> real \<Rightarrow> string" where
  "fmt_fixed d x =
     (let q = nat (round_half_even (\<bar>x\<bar> * 10 ^ d));
          ip = str_nat (q div 10 ^ d);
          fp = str_nat (q mod 10 ^ d)
      in (if x < 0 then ''-'' else '''') @ ip @
         (if d = 0 then '''' else ''.'' @ replicate (d - length fp) (CHR ''0'') @ fp))"

fun xfmt_fixed :: "nat \<Rightarrow> xfloat \<Rightarrow> string" where
  "xfmt_fixed d (Fin x) = fmt_fixed d x"
| "xfmt_fixed d PInf = ''inf''"
| "xfmt_fixed d NInf = ''-inf''"
| "xfmt_fixed d NaN = ''nan''"

text \<open>\<^verbatim>\<open>f"{x:.<d>%}"\<close>.\<close>

definition fmt_percent :: "nat \<Rightarrow> real \<Rightarrow> string" where
  "fmt_percent d x = fmt_fixed d (x * 100) @ ''%''"

section \<open>Data model\<close>

text \<open>A \<^verbatim>\<open>datetime\<close> is represented by its position on the time axis.\<close>

type_synonym datetime = nat

record OHLCData =
  timestamp :: datetime
  open_price :: real
  high :: real
  low :: real
  close :: real
  volume :: real

record ChartData =
  ohlc_data :: "OHLCData list"
  price_levels :: "string \<rightharpoonup> real"
  timeframe :: string
  symbol :: string
  extraction_confidence :: real

text \<open>
  The indicator dictionary. \<^verbatim>\<open>calculate_technical_indicators\<close> removes every
  \<^verbatim>\<open>None\<close> before it returns, so a present key holds a float.
\<close>

type_synonym indicators = "string \<rightharpoonup> xfloat"

record Pattern =
  pattern_name :: string
  pattern_confidence :: real
  start_time :: string
  end_time :: string
  pattern_type :: string
  description :: string

record Prediction =
  direction :: string
  confidence :: real
  target_price :: "real option"
  time_horizon :: string
  reasoning :: string

record TradingSignal =
  action :: string
  strength :: string
  entry_price :: "real option"
  stop_loss :: "real option"
  take_profit :: "real option"
  risk_reward_ratio :: real
  signal_reasoning :: string

subsection \<open>Configuration (\<^verbatim>\<open>config/settings.py\<close>)\<close>

text \<open>
  Of \<^verbatim>\<open>ModelConfig\<close> the core reads the confidence threshold and the prediction
  horizon in hours; its three model file names are never read and are left out.
\<close>

record ModelConfig =
  confidence_threshold :: real
  prediction_horizon :: int

record TechnicalAnalysisConfig =
  indicators :: "string \<rightharpoonup> bool"
  rsi_period :: int
  macd_periods :: "int \<times> int \<times> int"
  bb_period :: int
  bb_std_dev :: real
  ma_periods :: "int list"

record TradingConfig =
  risk_tolerance :: string
  max_risk_per_trade :: real
  stop_loss_multiplier :: real
  take_profit_multiplier :: real
  signal_filters :: "string \<rightharpoonup> bool"

text \<open>The defaults of \<^verbatim>\<open>settings.py\<close>.\<close>

definition default_model_config :: ModelConfig where
  "default_model_config = \<lparr>confidence_threshold = 0.7, prediction_horizon = 24\<rparr>"

definition default_technical_config :: TechnicalAnalysisConfig where
  "default_technical_config =
     \<lparr>indicators = [''rsi'' \<mapsto> True, ''macd'' \<mapsto> True, ''bollinger_bands'' \<mapsto> True,
                     ''moving_averages'' \<mapsto> True, ''volume'' \<mapsto> True, ''stochastic'' \<mapsto> True,
                     ''williams_r'' \<mapsto> True, ''cci'' \<mapsto> False, ''atr'' \<mapsto> False],
      rsi_period = 14, macd_periods = (12, 26, 9), bb_period = 20, bb_std_dev = 2.0,
      ma_periods = [9, 21, 50, 200]\<rparr>"

definition default_trading_config :: TradingConfig where
  "default_trading_config =
     \<lparr>risk_tolerance = ''medium'', max_risk_per_trade = 0.02, stop_loss_multiplier = 2.0,
      take_profit_multiplier = 3.0,
      signal_filters = [''trend_confirmation'' \<mapsto> True, ''volume_confirmation'' \<mapsto> True,
                        ''multiple_timeframe'' \<mapsto> False, ''momentum_filter'' \<mapsto> True]\<rparr>"

text \<open>\<^verbatim>\<open>d.get(key, False)\<close> on a dictionary of flags.\<close>

definition flag :: "(string \<rightharpoonup> bool) \<Rightarrow> string \<Rightarrow> bool" where
  "flag d k = (case d k of None \<Rightarrow> False | Some b \<Rightarrow> b)"

text \<open>
  A \<^verbatim>\<open>ChartPredictor\<close> object: \<^verbatim>\<open>__init__\<close> stores the model and the trading
  configuration of the settings.
\<close>

record ChartPredictor =
  model_config :: ModelConfig
  trading_config :: TradingConfig

section \<open>Predictor: \<^verbatim>\<open>ChartPredictor.predict_price_movement\<close>\<close>

text \<open>
  The function counts bullish and bearish votes in three steps (RSI, MACD, moving
  averages) and decides from the two counters. Each step is a definition that returns
  what it adds to \<^verbatim>\<open>(bullish_signals, bearish_signals)\<close>.
\<close>

text \<open>\<^verbatim>\<open>chart_data.price_levels.get('current_price', 150.0)\<close>\<close>

definition current_price :: "ChartData \<Rightarrow> real" where
  "current_price chart_data =
     (case price_levels chart_data ''current_price'' of None \<Rightarrow> 150.0 | Some p \<Rightarrow> p)"

definition rsi_votes :: "indicators \<Rightarrow> nat \<times> nat" where
  "rsi_votes technical_analysis =
     (case technical_analysis ''RSI'' of
        None \<Rightarrow> (0, 0)
      | Some rsi \<Rightarrow>
          if truthy rsi then
            (if xlt rsi (Fin 30) then (1, 0)
             else if xlt (Fin 70) rsi then (0, 1)
             else (0, 0))
          else (0, 0))"

definition macd_votes :: "indicators \<Rightarrow> nat \<times> nat" where
  "macd_votes technical_analysis =
     (case (technical_analysis ''MACD'', technical_analysis ''MACD_Signal'') of
        (Some macd, Some macd_signal) \<Rightarrow>
          if truthy macd \<and> truthy macd_signal then
            (if xlt macd_signal macd then (1, 0) else (0, 1))
          else (0, 0)
      | _ \<Rightarrow> (0, 0))"

definition ma_votes :: "real \<Rightarrow> indicators \<Rightarrow> nat \<times> nat" where
  "ma_votes price technical_analysis =
     (case (technical_analysis ''MA_9'', technical_analysis ''MA_21'') of
        (Some ma_9, Some ma_21) \<Rightarrow>
          if truthy ma_9 \<and> truthy ma_21 then
            (if xlt ma_21 ma_9 \<and> xlt ma_9 (Fin price) then (1, 0)
             else if xlt ma_9 ma_21 \<and> xlt (Fin price) ma_9 then (0, 1)
             else (0, 0))
          else (0, 0)
      | _ \<Rightarrow> (0, 0))"

definition count_signals :: "ChartData \<Rightarrow> indicators \<Rightarrow> nat \<times> nat" where
  "count_signals chart_data technical_analysis =
     (let (b1, s1) = rsi_votes technical_analysis;
          (b2, s2) = macd_votes technical_analysis;
          (b3, s3) = ma_votes (current_price chart_data) technical_analysis
      in (b1 + b2 + b3, s1 + s2 + s3))"

definition predict_price_movement :: "ChartPredictor \<Rightarrow> ChartData \<Rightarrow> indicators \<Rightarrow> Prediction" where
  "predict_price_movement self chart_data technical_analysis =
     (let (bullish_signals, bearish_signals) = count_signals chart_data technical_analysis;
          price = current_price chart_data;
          (dir, conf, target, why) =
            (if bullish_signals > bearish_signals then
               (''UP'',
                min 0.9 (0.5 + real (bullish_signals - bearish_signals) * 0.15),
                price * 1.05,
                ''Bullish signals: '' @ str_nat bullish_signals @
                  '', Bearish signals: '' @ str_nat bearish_signals)
             else if bearish_signals > bullish_signals then
               (''DOWN'',
                min 0.9 (0.5 + real (bearish_signals - bullish_signals) * 0.15),
                price * 0.95,
                ''Bearish signals: '' @ str_nat bearish_signals @
                  '', Bullish signals: '' @ str_nat bullish_signals)
             else
               (''SIDEWAYS'', 0.5, price,
                ''Equal bullish and bearish signals suggest sideways movement''))
      in \<lparr>direction = dir,
          confidence = conf,
          target_price = (if target \<noteq> 0 then Some (py_round target 2) else None),
          time_horizon = str_int (prediction_horizon (model_config self)) @ ''h'',
          reasoning = why\<rparr>)"

section \<open>Signal generator: \<^verbatim>\<open>ChartPredictor.generate_trading_signals\<close>\<close>

text \<open>\<^verbatim>\<open>f(v) if v else None\<close> on an optional Python float.\<close>

definition when_truthy :: "real option \<Rightarrow> (real \<Rightarrow> real) \<Rightarrow> real option" where
  "when_truthy v f = (case v of None \<Rightarrow> None | Some x \<Rightarrow> if x \<noteq> 0 then Some (f x) else None)"

text \<open>Division of Python floats raises on a zero divisor.\<close>

definition py_div :: "real \<Rightarrow> real \<Rightarrow> py_error + real" where
  "py_div a b = (if b = 0 then Inl ZeroDivisionError else Inr (a / b))"

definition apply_trend_filter :: "TradingSignal \<Rightarrow> indicators \<Rightarrow> TradingSignal" where
  "apply_trend_filter signal technical_analysis =
     (case (technical_analysis ''MA_9'', technical_analysis ''MA_21'', technical_analysis ''MA_50'') of
        (Some ma_9, Some ma_21, Some ma_50) \<Rightarrow>
          if \<not> (truthy ma_9 \<and> truthy ma_21 \<and> truthy ma_50) then signal
          else if action signal = ''BUY'' then
            (if \<not> (xlt ma_21 ma_9 \<and> xlt ma_50 ma_21) then
               signal\<lparr>strength := ''Weak'',
                      signal_reasoning := signal_reasoning signal @
                        '' (Trend filter: Moving averages not aligned for uptrend)''\<rparr>
             else signal)
          else if action signal = ''SELL'' then
            (if \<not> (xlt ma_9 ma_21 \<and> xlt ma_21 ma_50) then
               signal\<lparr>strength := ''Weak'',
                      signal_reasoning := signal_reasoning signal @
                        '' (Trend filter: Moving averages not aligned for downtrend)''\<rparr>
             else signal)
          else signal
      | _ \<Rightarrow> signal)"

definition apply_volume_filter :: "TradingSignal \<Rightarrow> indicators \<Rightarrow> TradingSignal" where
  "apply_volume_filter signal technical_analysis =
     (case technical_analysis ''Volume_Ratio'' of
        None \<Rightarrow> signal
      | Some volume_ratio \<Rightarrow>
          if \<not> truthy volume_ratio then signal
          else if action signal = ''BUY'' \<or> action signal = ''SELL'' then
            (if xlt volume_ratio (Fin 1.2) then
               (let downgraded =
                      (if strength signal = ''Strong'' then signal\<lparr>strength := ''Medium''\<rparr>
                       else if strength signal = ''Medium'' then signal\<lparr>strength := ''Weak''\<rparr>
                       else signal)
                in downgraded\<lparr>signal_reasoning := signal_reasoning downgraded @
                     '' (Volume filter: Volume ratio '' @ xfmt_fixed 1 volume_ratio @
                     '' below confirmation threshold)''\<rparr>)
             else signal)
          else signal)"

text \<open>
  The \<^verbatim>\<open>if\<close>/\<^verbatim>\<open>elif\<close> chain on the prediction, before the filters. The risk/reward
  quotient divides Python floats: it raises when entry and stop coincide.
\<close>

definition base_signal :: "ChartPredictor \<Rightarrow> Prediction \<Rightarrow> py_error + TradingSignal" where
  "base_signal self prediction =
     (let risk = max_risk_per_trade (trading_config self);
          stop_mult = stop_loss_multiplier (trading_config self);
          profit_mult = take_profit_multiplier (trading_config self)
      in
      if confidence prediction < 0.6 then
        Inr \<lparr>action = ''HOLD'', strength = ''Weak'', entry_price = None, stop_loss = None,
             take_profit = None, risk_reward_ratio = 0.0,
             signal_reasoning = ''Low prediction confidence suggests waiting for clearer signals''\<rparr>
      else if direction prediction = ''UP'' then
        (let entry = when_truthy (target_price prediction) (\<lambda>t. t * 0.98);
             stop = when_truthy entry (\<lambda>e. e * (1 - risk * stop_mult));
             take = when_truthy entry (\<lambda>e. e * (1 + risk * profit_mult));
             ratio =
               (case (entry, stop, take) of
                  (Some e, Some s, Some t) \<Rightarrow>
                    if e \<noteq> 0 \<and> s \<noteq> 0 \<and> t \<noteq> 0 then py_div (t - e) (e - s) else Inr 0.0
                | _ \<Rightarrow> Inr 0.0)
         in case ratio of
              Inl err \<Rightarrow> Inl err
            | Inr r \<Rightarrow>
                Inr \<lparr>action = ''BUY'',
                     strength = (if confidence prediction > 0.8 then ''Strong'' else ''Medium''),
                     entry_price = when_truthy entry (\<lambda>e. py_round e 2),
                     stop_loss = when_truthy stop (\<lambda>s. py_round s 2),
                     take_profit = when_truthy take (\<lambda>t. py_round t 2),
                     risk_reward_ratio = py_round r 2,
                     signal_reasoning = ''Bullish prediction with '' @
                       fmt_percent 1 (confidence prediction) @ '' confidence. '' @
                       reasoning prediction\<rparr>)
      else if direction prediction = ''DOWN'' then
        (let entry = when_truthy (target_price prediction) (\<lambda>t. t * 1.02);
             stop = when_truthy entry (\<lambda>e. e * (1 + risk * stop_mult));
             take = when_truthy entry (\<lambda>e. e * (1 - risk * profit_mult));
             ratio =
               (case (entry, stop, take) of
                  (Some e, Some s, Some t) \<Rightarrow>
                    if e \<noteq> 0 \<and> s \<noteq> 0 \<and> t \<noteq> 0 then py_div (e - t) (s - e) else Inr 0.0
                | _ \<Rightarrow> Inr 0.0)
         in case ratio of
              Inl err \<Rightarrow> Inl err
            | Inr r \<Rightarrow>
                Inr \<lparr>action = ''SELL'',
                     strength = (if confidence prediction > 0.8 then ''Strong'' else ''Medium''),
                     entry_price = when_truthy entry (\<lambda>e. py_round e 2),
                     stop_loss = when_truthy stop (\<lambda>s. py_round s 2),
                     take_profit = when_truthy take (\<lambda>t. py_round t 2),
                     risk_reward_ratio = py_round r 2,
                     signal_reasoning = ''Bearish prediction with '' @
                       fmt_percent 1 (confidence prediction) @ '' confidence. '' @
                       reasoning prediction\<rparr>)
      else
        Inr \<lparr>action = ''HOLD'', strength = ''Medium'', entry_price = None, stop_loss = None,
             take_profit = None, risk_reward_ratio = 0.0,
             signal_reasoning = ''Sideways movement predicted. '' @ reasoning prediction\<rparr>)"

definition generate_trading_signals ::
  "ChartPredictor \<Rightarrow> Prediction \<Rightarrow> indicators \<Rightarrow> py_error + TradingSignal" where
  "generate_trading_signals self prediction technical_analysis =
     (case base_signal self prediction of
        Inl err \<Rightarrow> Inl err
      | Inr signal \<Rightarrow>
          (let filters = signal_filters (trading_config self);
               signal1 = (if flag filters ''trend_confirmation''
                          then apply_trend_filter signal technical_analysis else signal);
               signal2 = (if flag filters ''volume_confirmation''
                          then apply_volume_filter signal1 technical_analysis else signal1)
           in Inr signal2))"

text \<open>
  The order of signal strengths: Strong above Medium above Weak. A string that is none
  of the three ranks with Weak; \<open>known_strength\<close> says that it is one of the three.
\<close>

definition strength_rank :: "string \<Rightarrow> nat" where
  "strength_rank s = (if s = ''Strong'' then 2 else if s = ''Medium'' then 1 else 0)"

definition known_strength :: "string \<Rightarrow> bool" where
  "known_strength s = (s = ''Strong'' \<or> s = ''Medium'' \<or> s = ''Weak'')"

section \<open>Data validation: \<^verbatim>\<open>ChartExtractor.validate_extracted_data\<close>\<close>

record ValidationResults =
  is_valid :: bool
  warnings :: "string list"
  errors :: "string list"
  quality_score :: real

text \<open>
  The loop over \<^verbatim>\<open>range(1, len(ohlc_data))\<close>: the relative gap between the close of a
  bar and the open of the next. The bars hold Python floats, so a close of zero raises.
\<close>

fun price_changes :: "OHLCData list \<Rightarrow> py_error + real list" where
  "price_changes (prev_bar # curr_bar # rest) =
     (case py_div \<bar>open_price curr_bar - close prev_bar\<bar> (close prev_bar) of
        Inl err \<Rightarrow> Inl err
      | Inr change_pct \<Rightarrow>
          (case price_changes (curr_bar # rest) of
             Inl err \<Rightarrow> Inl err
           | Inr changes \<Rightarrow> Inr (change_pct # changes)))"
| "price_changes _ = Inr []"

text \<open>\<^verbatim>\<open>ohlc.low <= min(ohlc.open, ohlc.close) <= max(ohlc.open, ohlc.close) <= ohlc.high\<close>\<close>

definition consistent_candle :: "OHLCData \<Rightarrow> bool" where
  "consistent_candle ohlc =
     (low ohlc \<le> min (open_price ohlc) (close ohlc) \<and>
      min (open_price ohlc) (close ohlc) \<le> max (open_price ohlc) (close ohlc) \<and>
      max (open_price ohlc) (close ohlc) \<le> high ohlc)"

text \<open>\<^verbatim>\<open>[x for x in price_changes if x > 0.20]\<close>\<close>

definition extreme_changes_of :: "real list \<Rightarrow> real list" where
  "extreme_changes_of changes = filter (\<lambda>x. x > 0.20) changes"

definition validate_extracted_data :: "ChartData \<Rightarrow> py_error + ValidationResults" where
  "validate_extracted_data chart_data =
     (if ohlc_data chart_data = [] then
        Inr \<lparr>is_valid = False, warnings = [], errors = [''No OHLC data extracted''],
             quality_score = 0.0\<rparr>
      else
        case price_changes (ohlc_data chart_data) of
          Inl err \<Rightarrow> Inl err
        | Inr changes \<Rightarrow>
            (let extreme_changes = extreme_changes_of changes;
                 warn1 =
                   (if real (length extreme_changes) > real (length changes) * 0.1
                    then [''High number of extreme price changes detected: '' @
                            str_nat (length extreme_changes)]
                    else []);
                 inconsistent_candles =
                   length (filter (\<lambda>ohlc. \<not> consistent_candle ohlc) (ohlc_data chart_data));
                 warn2 =
                   (if inconsistent_candles > 0
                    then [''Found '' @ str_nat inconsistent_candles @
                            '' candles with inconsistent OHLC values'']
                    else []);
                 base_score =
                   max 0.0 (min 1.0 (1.0 - real (length extreme_changes) * 0.05
                                         - real inconsistent_candles * 0.1))
             in Inr \<lparr>is_valid = \<not> base_score < 0.5,
                     warnings = warn1 @ warn2,
                     errors = (if base_score < 0.5
                               then [''Data quality score below acceptable threshold'']
                               else []),
                     quality_score = base_score\<rparr>))"

section \<open>Pattern detection: \<^verbatim>\<open>ChartPredictor.detect_patterns\<close>\<close>

text \<open>
  \<^verbatim>\<open>detect_patterns\<close> checks the length of the series, builds the close, high, low and
  volume arrays, runs the six detectors and concatenates what they return. The
  detectors are parameters of the model: what is stated about \<^verbatim>\<open>detect_patterns\<close>
  holds for whatever each detector returns.
\<close>

record Detectors =
  detect_double_bottom :: "real list \<Rightarrow> real list \<Rightarrow> real list \<Rightarrow> ChartData \<Rightarrow> Pattern list"
  detect_double_top :: "real list \<Rightarrow> real list \<Rightarrow> real list \<Rightarrow> ChartData \<Rightarrow> Pattern list"
  detect_head_shoulders :: "real list \<Rightarrow> real list \<Rightarrow> real list \<Rightarrow> ChartData \<Rightarrow> Pattern list"
  detect_triangles :: "real list \<Rightarrow> real list \<Rightarrow> real list \<Rightarrow> ChartData \<Rightarrow> Pattern list"
  detect_breakouts ::
    "real list \<Rightarrow> real list \<Rightarrow> real list \<Rightarrow> real list \<Rightarrow> ChartData \<Rightarrow> Pattern list"
  detect_trend_channels :: "real list \<Rightarrow> ChartData \<Rightarrow> Pattern list"

definition detect_patterns :: "Detectors \<Rightarrow> ChartData \<Rightarrow> Pattern list" where
  "detect_patterns detectors chart_data =
     (if ohlc_data chart_data = [] \<or> length (ohlc_data chart_data) < 20 then []
      else
        (let closes = map close (ohlc_data chart_data);
             highs = map high (ohlc_data chart_data);
             lows = map low (ohlc_data chart_data);
             volumes = map volume (ohlc_data chart_data);
             double_bottom_patterns = detect_double_bottom detectors closes highs lows chart_data;
             double_top_patterns = detect_double_top detectors closes highs lows chart_data;
             head_shoulders_patterns = detect_head_shoulders detectors closes highs lows chart_data;
             triangle_patterns = detect_triangles detectors closes highs lows chart_data;
             breakout_patterns = detect_breakouts detectors closes highs lows volumes chart_data;
             trend_channel_patterns = detect_trend_channels detectors closes chart_data
         in double_bottom_patterns @ double_top_patterns @ head_shoulders_patterns @
            triangle_patterns @ breakout_patterns @ trend_channel_patterns))"

section \<open>Backtesting: \<^verbatim>\<open>ChartPredictor.backtest_prediction\<close>\<close>

fun xmul :: "xfloat \<Rightarrow> xfloat \<Rightarrow> xfloat" where
  "xmul (Fin a) (Fin b) = Fin (a * b)"
| "xmul NaN _ = NaN"
| "xmul _ NaN = NaN"
| "xmul PInf (Fin b) = (if b > 0 then PInf else if b < 0 then NInf else NaN)"
| "xmul NInf (Fin b) = (if b > 0 then NInf else if b < 0 then PInf else NaN)"
| "xmul (Fin a) PInf = (if a > 0 then PInf else if a < 0 then NInf else NaN)"
| "xmul (Fin a) NInf = (if a > 0 then NInf else if a < 0 then PInf else NaN)"
| "xmul PInf PInf = PInf"
| "xmul NInf NInf = PInf"
| "xmul PInf NInf = NInf"
| "xmul NInf PInf = NInf"

text \<open>\<^verbatim>\<open>np.maximum\<close>: the larger value, \<^verbatim>\<open>nan\<close> if either is.\<close>

fun xmax :: "xfloat \<Rightarrow> xfloat \<Rightarrow> xfloat" where
  "xmax NaN _ = NaN"
| "xmax _ NaN = NaN"
| "xmax a b = (if xlt a b then b else a)"

fun xsqrt :: "xfloat \<Rightarrow> xfloat" where
  "xsqrt (Fin a) = (if a < 0 then NaN else Fin (sqrt a))"
| "xsqrt PInf = PInf"
| "xsqrt _ = NaN"

definition xsum :: "xfloat list \<Rightarrow> xfloat" where
  "xsum xs = foldl xadd (Fin 0) xs"

text \<open>\<^verbatim>\<open>np.mean\<close> of a non-empty list.\<close>

definition xmean :: "xfloat list \<Rightarrow> xfloat" where
  "xmean xs = xdiv (xsum xs) (Fin (real (length xs)))"

text \<open>\<^verbatim>\<open>np.std\<close>: the population standard deviation.\<close>

definition xstd :: "xfloat list \<Rightarrow> xfloat" where
  "xstd xs = xsqrt (xmean (map (\<lambda>x. xmul (xsub x (xmean xs)) (xsub x (xmean xs))) xs))"

text \<open>\<^verbatim>\<open>xs[i]\<close>: a negative index counts from the end, an index out of range raises.\<close>

definition py_index :: "'a list \<Rightarrow> int \<Rightarrow> py_error + 'a" where
  "py_index xs i =
     (if 0 \<le> i \<and> i < int (length xs) then Inr (xs ! nat i)
      else if i < 0 \<and> - int (length xs) \<le> i then Inr (xs ! nat (int (length xs) + i))
      else Inl IndexError)"

text \<open>The last \<open>k\<close> entries: \<^verbatim>\<open>xs[-k:]\<close> for a positive \<open>k\<close>.\<close>

definition last_n :: "nat \<Rightarrow> 'a list \<Rightarrow> 'a list" where
  "last_n k xs = drop (length xs - k) xs"

text \<open>
  \<^verbatim>\<open>np.polyfit(range(len(ys)), ys, 1)[0]\<close>: the slope of the least-squares line through
  the points \<open>(0, y\<^sub>0), (1, y\<^sub>1), \<dots>\<close>.
\<close>

definition polyfit_slope :: "real list \<Rightarrow> real" where
  "polyfit_slope ys =
     (let xs = map real [0..<length ys];
          xbar = sum_list xs / real (length xs);
          ybar = sum_list ys / real (length ys)
      in sum_list (map (\<lambda>(x, y). (x - xbar) * (y - ybar)) (zip xs ys)) /
         sum_list (map (\<lambda>x. (x - xbar) * (x - xbar)) xs))"

record BacktestResults =
  accuracy :: real
  total_predictions :: nat
  correct_predictions :: nat
  up_accuracy :: real
  down_accuracy :: real
  precision :: real
  recall :: real
  profit_loss :: xfloat
  total_trades :: nat
  winning_trades :: nat
  losing_trades :: nat
  win_rate :: real
  avg_win :: xfloat
  avg_loss :: xfloat
  max_drawdown :: xfloat
  sharpe_ratio :: xfloat
  backtest_period :: string

definition get_empty_backtest_results :: BacktestResults where
  "get_empty_backtest_results =
     \<lparr>accuracy = 0.0, total_predictions = 0, correct_predictions = 0, up_accuracy = 0.0,
      down_accuracy = 0.0, precision = 0.0, recall = 0.0, profit_loss = Fin 0.0,
      total_trades = 0, winning_trades = 0, losing_trades = 0, win_rate = 0.0,
      avg_win = Fin 0.0, avg_loss = Fin 0.0, max_drawdown = Fin 0.0, sharpe_ratio = Fin 0.0,
      backtest_period = ''No data''\<rparr>"

text \<open>
  \<^verbatim>\<open>_simulate_prediction\<close>. The random source is a parameter: \<open>rng k\<close> is the value
  of the \<open>k\<close>-th call of \<^verbatim>\<open>np.random.uniform(0.5, 1.0)\<close>. The function returns the
  direction and the number of draws made so far.
\<close>

definition simulate_prediction :: "(nat \<Rightarrow> real) \<Rightarrow> nat \<Rightarrow> real list \<Rightarrow> string \<times> nat" where
  "simulate_prediction rng draws historical_prices =
     (if length historical_prices < 10 then (''SIDEWAYS'', draws)
      else
        (let recent_trend = polyfit_slope (last_n 10 historical_prices);
             confidence_factor = rng draws
         in (if recent_trend > 0.001 * confidence_factor then ''UP''
             else if recent_trend < - 0.001 * confidence_factor then ''DOWN''
             else ''SIDEWAYS'',
             Suc draws)))"

record Trade =
  pnl :: xfloat
  return_pct :: xfloat
  trade_entry_price :: real
  trade_exit_price :: real
  predicted_direction :: "string option"

text \<open>\<^verbatim>\<open>_simulate_trade\<close>: the prices are numpy floats, so the divisions do not raise.\<close>

definition simulate_trade :: "string \<Rightarrow> real \<Rightarrow> real \<Rightarrow> real \<Rightarrow> Trade" where
  "simulate_trade predicted entry exit_p risk_per_trade =
     (let position_size = 1000 * risk_per_trade;
          shares = xdiv (Fin position_size) (Fin entry)
      in if predicted = ''UP'' then
           \<lparr>pnl = xmul shares (Fin (exit_p - entry)),
            return_pct = xdiv (Fin (exit_p - entry)) (Fin entry),
            trade_entry_price = entry, trade_exit_price = exit_p,
            predicted_direction = Some predicted\<rparr>
         else if predicted = ''DOWN'' then
           \<lparr>pnl = xmul shares (Fin (entry - exit_p)),
            return_pct = xdiv (Fin (entry - exit_p)) (Fin entry),
            trade_entry_price = entry, trade_exit_price = exit_p,
            predicted_direction = Some predicted\<rparr>
         else
           \<lparr>pnl = Fin 0.0, return_pct = Fin 0.0, trade_entry_price = entry,
            trade_exit_price = exit_p, predicted_direction = None\<rparr>)"

text \<open>\<^verbatim>\<open>np.cumsum\<close>, \<^verbatim>\<open>np.maximum.accumulate\<close> and \<^verbatim>\<open>np.max\<close>.\<close>

fun cumsum_from :: "xfloat \<Rightarrow> xfloat list \<Rightarrow> xfloat list" where
  "cumsum_from acc [] = []"
| "cumsum_from acc (x # xs) = xadd acc x # cumsum_from (xadd acc x) xs"

fun maximum_accumulate_from :: "xfloat \<Rightarrow> xfloat list \<Rightarrow> xfloat list" where
  "maximum_accumulate_from acc [] = []"
| "maximum_accumulate_from acc (x # xs) = xmax acc x # maximum_accumulate_from (xmax acc x) xs"

fun maximum_accumulate :: "xfloat list \<Rightarrow> xfloat list" where
  "maximum_accumulate [] = []"
| "maximum_accumulate (x # xs) = x # maximum_accumulate_from x xs"

fun np_max :: "xfloat list \<Rightarrow> xfloat" where
  "np_max [] = Fin 0.0"
| "np_max (x # xs) = foldl xmax x xs"

text \<open>\<^verbatim>\<open>_calculate_backtest_metrics\<close>\<close>

definition calculate_backtest_metrics ::
  "string list \<Rightarrow> string list \<Rightarrow> Trade list \<Rightarrow> BacktestResults" where
  "calculate_backtest_metrics predictions actuals trades =
     (let pairs = zip predictions actuals;
          correct = length (filter (\<lambda>(p, a). p = a) pairs);
          total = length predictions;
          acc = (if total > 0 then real correct / real total else 0.0);
          up_actuals = map snd (filter (\<lambda>(p, a). p = ''UP'') pairs);
          up_acc = (if up_actuals \<noteq> []
                    then real (length (filter (\<lambda>a. a = ''UP'') up_actuals)) /
                         real (length up_actuals)
                    else 0.0);
          down_actuals = map snd (filter (\<lambda>(p, a). p = ''DOWN'') pairs);
          down_acc = (if down_actuals \<noteq> []
                      then real (length (filter (\<lambda>a. a = ''DOWN'') down_actuals)) /
                           real (length down_actuals)
                      else 0.0);
          returns = map return_pct trades;
          profitable_trades = filter (\<lambda>t. xlt (Fin 0) (pnl t)) trades;
          losing = filter (\<lambda>t. xlt (pnl t) (Fin 0)) trades;
          total_pnl = (if trades \<noteq> [] then xsum (map pnl trades) else Fin 0.0);
          rate = (if trades \<noteq> []
                  then real (length profitable_trades) / real (length trades) else 0.0);
          mean_win = (if trades \<noteq> [] \<and> profitable_trades \<noteq> []
                      then xmean (map pnl profitable_trades) else Fin 0.0);
          mean_loss = (if trades \<noteq> [] \<and> losing \<noteq> []
                       then xmean (map pnl losing) else Fin 0.0);
          cumulative_returns = cumsum_from (Fin 0) returns;
          running_max = maximum_accumulate cumulative_returns;
          drawdowns = map (\<lambda>(m, c). xsub m c) (zip running_max cumulative_returns);
          drawdown = (if trades \<noteq> [] then np_max drawdowns else Fin 0.0);
          sharpe = (if length returns > 1 \<and> xlt (Fin 0) (xstd returns)
                    then xmul (xdiv (xmean returns) (xstd returns)) (Fin (sqrt 252))
                    else Fin 0.0)
      in \<lparr>accuracy = acc, total_predictions = total, correct_predictions = correct,
          up_accuracy = up_acc, down_accuracy = down_acc, precision = rate, recall = acc,
          profit_loss = total_pnl, total_trades = length trades,
          winning_trades = length profitable_trades, losing_trades = length losing,
          win_rate = rate, avg_win = mean_win, avg_loss = mean_loss,
          max_drawdown = drawdown, sharpe_ratio = sharpe,
          backtest_period = str_nat total @ '' predictions''\<rparr>)"

text \<open>
  One round of the loop of \<^verbatim>\<open>_run_backtest_simulation\<close> at index \<open>i\<close>. The state is
  \<^verbatim>\<open>(predictions_made, actual_outcomes, trades)\<close> and the number of random draws. An
  exception inside the round is caught and the round is skipped.
\<close>

definition backtest_round ::
  "ChartPredictor \<Rightarrow> (nat \<Rightarrow> real) \<Rightarrow> real list \<Rightarrow> int \<Rightarrow> nat \<Rightarrow>
   string list \<times> string list \<times> Trade list \<times> nat \<Rightarrow> string list \<times> string list \<times> Trade list \<times> nat" where
  "backtest_round self rng prices horizon i state =
     (case state of (predictions_made, actual_outcomes, trades, draws) \<Rightarrow>
        (let historical_prices = take i prices;
             (predicted, draws') = simulate_prediction rng draws historical_prices
         in case py_index prices (int i) of
              Inl err \<Rightarrow> (predictions_made, actual_outcomes, trades, draws')
            | Inr price \<Rightarrow>
                (case py_index prices (min (int i + horizon) (int (length prices) - 1)) of
                   Inl err \<Rightarrow> (predictions_made, actual_outcomes, trades, draws')
                 | Inr future_price \<Rightarrow>
                     (let actual =
                            (if future_price > price then ''UP''
                             else if future_price < price then ''DOWN'' else ''SIDEWAYS'')
                      in (predictions_made @ [predicted],
                          actual_outcomes @ [actual],
                          (if predicted \<noteq> ''SIDEWAYS''
                           then trades @ [simulate_trade predicted price future_price
                                            (max_risk_per_trade (trading_config self))]
                           else trades),
                          draws')))))"

text \<open>
  Attribute access on a \<^verbatim>\<open>Prediction\<close>. The dataclass declares five fields; any other
  name (special attributes aside) raises \<^verbatim>\<open>AttributeError\<close>.
\<close>

datatype py_value = PyInt int | PyFloat real | PyStr string | PyNone

definition getattr_Prediction :: "Prediction \<Rightarrow> string \<Rightarrow> py_error + py_value" where
  "getattr_Prediction p name =
     (if name = ''direction'' then Inr (PyStr (direction p))
      else if name = ''confidence'' then Inr (PyFloat (confidence p))
      else if name = ''target_price'' then
        Inr (case target_price p of None \<Rightarrow> PyNone | Some t \<Rightarrow> PyFloat t)
      else if name = ''time_horizon'' then Inr (PyStr (time_horizon p))
      else if name = ''reasoning'' then Inr (PyStr (reasoning p))
      else Inl AttributeError)"

text \<open>
  \<^verbatim>\<open>_run_backtest_simulation\<close>. The bound of the loop is
  \<^verbatim>\<open>len(prices) - prediction.time_horizon_hours\<close>, evaluated once before the first round
  and outside the \<^verbatim>\<open>try\<close> of the loop body: an exception there leaves the function.
  Only an \<^verbatim>\<open>int\<close> makes \<^verbatim>\<open>range\<close> accept the bound.
\<close>

definition run_backtest_simulation ::
  "ChartPredictor \<Rightarrow> (nat \<Rightarrow> real) \<Rightarrow> real list \<Rightarrow> datetime list \<Rightarrow> Prediction \<Rightarrow>
   py_error + BacktestResults" where
  "run_backtest_simulation self rng prices timestamps prediction =
     (if length prices < 30 then Inr get_empty_backtest_results
      else
        case getattr_Prediction prediction ''time_horizon_hours'' of
          Inl err \<Rightarrow> Inl err
        | Inr (PyInt horizon) \<Rightarrow>
            (case fold (backtest_round self rng prices horizon)
                    [20..<nat (int (length prices) - horizon)] ([], [], [], 0) of
               (predictions_made, actual_outcomes, trades, draws) \<Rightarrow>
                 if predictions_made = [] then Inr get_empty_backtest_results
                 else Inr (calculate_backtest_metrics predictions_made actual_outcomes trades))
        | Inr _ \<Rightarrow> Inl TypeError)"

text \<open>
  \<^verbatim>\<open>backtest_prediction\<close>. The data is absent, a list of bars (whose first element has a
  \<^verbatim>\<open>close\<close>) or a list of prices. Every exception of the simulation is caught and
  answered with the empty results.
\<close>

definition backtest_prediction ::
  "ChartPredictor \<Rightarrow> (nat \<Rightarrow> real) \<Rightarrow> Prediction \<Rightarrow> (OHLCData list + real list) option \<Rightarrow>
   BacktestResults" where
  "backtest_prediction self rng prediction actual_data =
     (case actual_data of
        None \<Rightarrow> get_empty_backtest_results
      | Some (Inl bars) \<Rightarrow>
          if bars = [] \<or> length bars < 10 then get_empty_backtest_results
          else
            (case run_backtest_simulation self rng (map close bars) (map timestamp bars)
                    prediction of
               Inl err \<Rightarrow> get_empty_backtest_results
             | Inr results \<Rightarrow> results)
      | Some (Inr price_list) \<Rightarrow>
          if price_list = [] \<or> length price_list < 10 then get_empty_backtest_results
          else
            (case run_backtest_simulation self rng price_list [0..<length price_list]
                    prediction of
               Inl err \<Rightarrow> get_empty_backtest_results
             | Inr results \<Rightarrow> results))"

text \<open>The number of entries of the data (\<open>0\<close> when it is absent).\<close>

definition series_length :: "(OHLCData list + real list) option \<Rightarrow> nat" where
  "series_length actual_data =
     (case actual_data of None \<Rightarrow> 0 | Some (Inl bars) \<Rightarrow> length bars
      | Some (Inr price_list) \<Rightarrow> length price_list)"

section \<open>Indicators: \<^verbatim>\<open>ChartExtractor.calculate_technical_indicators\<close>\<close>

subsection \<open>The pandas operations that the helpers use\<close>

text \<open>
  A pandas series is the list of its values. A rolling window of \<open>w\<close> entries has a
  value only where it holds \<open>w\<close> observations (\<^verbatim>\<open>min_periods\<close> defaults to the window);
  a missing or infinite entry is no observation. A negative window raises.
\<close>

fun finite_values :: "xfloat list \<Rightarrow> real list" where
  "finite_values [] = []"
| "finite_values (Fin x # xs) = x # finite_values xs"
| "finite_values (v # xs) = finite_values xs"

text \<open>The value of the rolling aggregate at the last position of \<open>xs\<close>.\<close>

definition rolling_at :: "(real list \<Rightarrow> xfloat) \<Rightarrow> nat \<Rightarrow> xfloat list \<Rightarrow> xfloat" where
  "rolling_at agg window xs =
     (let obs = finite_values (last_n window xs)
      in if window = 0 \<or> length xs < window \<or> length obs < window then NaN else agg obs)"

definition rolling :: "(real list \<Rightarrow> xfloat) \<Rightarrow> int \<Rightarrow> xfloat list \<Rightarrow> py_error + xfloat list" where
  "rolling agg window xs =
     (if window < 0 then Inl ValueError
      else Inr (map (\<lambda>t. rolling_at agg (nat window) (take (Suc t) xs)) [0..<length xs]))"

definition mean_agg :: "real list \<Rightarrow> xfloat" where
  "mean_agg obs = Fin (sum_list obs / real (length obs))"

text \<open>\<^verbatim>\<open>.std()\<close>: the sample standard deviation, undefined for a single observation.\<close>

definition std_agg :: "real list \<Rightarrow> xfloat" where
  "std_agg obs =
     (if length obs < 2 then NaN
      else
        (let m = sum_list obs / real (length obs)
         in Fin (sqrt (sum_list (map (\<lambda>x. (x - m) * (x - m)) obs) / real (length obs - 1)))))"

definition min_agg :: "real list \<Rightarrow> xfloat" where
  "min_agg obs = (case obs of [] \<Rightarrow> NaN | x # xs \<Rightarrow> Fin (foldl min x xs))"

definition max_agg :: "real list \<Rightarrow> xfloat" where
  "max_agg obs = (case obs of [] \<Rightarrow> NaN | x # xs \<Rightarrow> Fin (foldl max x xs))"

text \<open>\<^verbatim>\<open>series.iloc[-1]\<close>\<close>

definition iloc_last :: "'a list \<Rightarrow> py_error + 'a" where
  "iloc_last xs = (if xs = [] then Inl IndexError else Inr (last xs))"

text \<open>\<^verbatim>\<open>series.diff()\<close>: the first entry has no predecessor and is \<^verbatim>\<open>nan\<close>.\<close>

definition series_diff :: "xfloat list \<Rightarrow> xfloat list" where
  "series_diff xs =
     (case xs of [] \<Rightarrow> [] | x # rest \<Rightarrow> NaN # map (\<lambda>(a, b). xsub b a) (zip xs rest))"

text \<open>
  \<^verbatim>\<open>series.ewm(span=s).mean()\<close> with the default \<^verbatim>\<open>adjust=True\<close>: the weighted mean
  of the entries so far, the weight falling by \<open>1 - 2 / (s + 1)\<close> per step back. A span
  below one raises.
\<close>

definition ewm_mean :: "int \<Rightarrow> real list \<Rightarrow> py_error + real list" where
  "ewm_mean span_len xs =
     (if span_len < 1 then Inl ValueError
      else
        (let a = 2 / (real_of_int span_len + 1)
         in Inr (map (\<lambda>t. (\<Sum>i\<le>t. (1 - a) ^ (t - i) * xs ! i) / (\<Sum>i\<le>t. (1 - a) ^ (t - i)))
                   [0..<length xs])))"

text \<open>\<^verbatim>\<open>round(v, n) if not pd.isna(v) else None\<close>\<close>

definition round_unless_na :: "xfloat \<Rightarrow> nat \<Rightarrow> xfloat option" where
  "round_unless_na v n = (if isna v then None else Some (xround v n))"

text \<open>\<^verbatim>\<open>v if not np.isnan(v) else None\<close>\<close>

definition unless_nan :: "xfloat \<Rightarrow> xfloat option" where
  "unless_nan v = (if isna v then None else Some v)"

subsection \<open>The helpers without TA-Lib\<close>

text \<open>
  \<^verbatim>\<open>delta.where(delta > 0, 0)\<close> and \<^verbatim>\<open>-delta.where(delta < 0, 0)\<close> of
  \<^verbatim>\<open>_calculate_rsi_manual\<close>: the gains and the losses of the closes, bar by bar.
\<close>

definition rsi_gains :: "real list \<Rightarrow> xfloat list" where
  "rsi_gains prices =
     map (\<lambda>d. if xlt (Fin 0) d then d else Fin 0) (series_diff (map Fin prices))"

definition rsi_losses :: "real list \<Rightarrow> xfloat list" where
  "rsi_losses prices =
     map (\<lambda>d. xneg (if xlt d (Fin 0) then d else Fin 0)) (series_diff (map Fin prices))"

text \<open>\<^verbatim>\<open>100 - (100 / (1 + rs))\<close> with \<^verbatim>\<open>rs = gain / loss\<close>\<close>

definition rsi_formula :: "xfloat \<Rightarrow> xfloat \<Rightarrow> xfloat" where
  "rsi_formula gain loss = xsub (Fin 100) (xdiv (Fin 100) (xadd (Fin 1) (xdiv gain loss)))"

text \<open>Every exception inside a helper is caught there and answered with \<^verbatim>\<open>None\<close>.\<close>

definition calculate_rsi_manual :: "real list \<Rightarrow> int \<Rightarrow> xfloat option" where
  "calculate_rsi_manual prices period =
     (case rolling mean_agg period (rsi_gains prices) of
        Inl err \<Rightarrow> None
      | Inr gain \<Rightarrow>
          (case rolling mean_agg period (rsi_losses prices) of
             Inl err \<Rightarrow> None
           | Inr loss \<Rightarrow>
               (case iloc_last (map (\<lambda>(g, l). rsi_formula g l) (zip gain loss)) of
                  Inl err \<Rightarrow> None
                | Inr rsi \<Rightarrow> round_unless_na rsi 2)))"

definition calculate_macd_manual ::
  "real list \<Rightarrow> int \<Rightarrow> int \<Rightarrow> int \<Rightarrow> xfloat option \<times> xfloat option \<times> xfloat option" where
  "calculate_macd_manual prices fast slow signal =
     (case ewm_mean fast prices of
        Inl err \<Rightarrow> (None, None, None)
      | Inr ema_fast \<Rightarrow>
          (case ewm_mean slow prices of
             Inl err \<Rightarrow> (None, None, None)
           | Inr ema_slow \<Rightarrow>
               (let macd_line = map (\<lambda>(f, s). f - s) (zip ema_fast ema_slow)
                in case ewm_mean signal macd_line of
                     Inl err \<Rightarrow> (None, None, None)
                   | Inr signal_line \<Rightarrow>
                       (let histogram = map (\<lambda>(m, s). m - s) (zip macd_line signal_line)
                        in if macd_line = [] then (None, None, None)
                           else (Some (Fin (py_round (last macd_line) 4)),
                                 Some (Fin (py_round (last signal_line) 4)),
                                 Some (Fin (py_round (last histogram) 4)))))))"

definition calculate_bollinger_bands_manual ::
  "real list \<Rightarrow> int \<Rightarrow> real \<Rightarrow> xfloat option \<times> xfloat option \<times> xfloat option" where
  "calculate_bollinger_bands_manual prices period std_dev =
     (case rolling mean_agg period (map Fin prices) of
        Inl err \<Rightarrow> (None, None, None)
      | Inr sma \<Rightarrow>
          (case rolling std_agg period (map Fin prices) of
             Inl err \<Rightarrow> (None, None, None)
           | Inr std \<Rightarrow>
               (let upper_band = map (\<lambda>(m, s). xadd m (xmul s (Fin std_dev))) (zip sma std);
                    lower_band = map (\<lambda>(m, s). xsub m (xmul s (Fin std_dev))) (zip sma std)
                in if sma = [] then (None, None, None)
                   else (round_unless_na (last upper_band) 2,
                         round_unless_na (last sma) 2,
                         round_unless_na (last lower_band) 2))))"

definition calculate_stochastic_manual ::
  "real list \<Rightarrow> real list \<Rightarrow> real list \<Rightarrow> xfloat option \<times> xfloat option" where
  "calculate_stochastic_manual highs lows closes =
     (case rolling min_agg 14 (map Fin lows) of
        Inl err \<Rightarrow> (None, None)
      | Inr lowest_low \<Rightarrow>
          (case rolling max_agg 14 (map Fin highs) of
             Inl err \<Rightarrow> (None, None)
           | Inr highest_high \<Rightarrow>
               (let k_percent =
                      map (\<lambda>(c, l, h). xmul (Fin 100) (xdiv (xsub (Fin c) l) (xsub h l)))
                        (zip closes (zip lowest_low highest_high))
                in case rolling mean_agg 3 k_percent of
                     Inl err \<Rightarrow> (None, None)
                   | Inr d_percent \<Rightarrow>
                       if k_percent = [] then (None, None)
                       else (round_unless_na (last k_percent) 2,
                             round_unless_na (last d_percent) 2))))"

subsection \<open>The indicator families\<close>

text \<open>
  TA-Lib is an optional third-party library: \<^verbatim>\<open>TALIB_AVAILABLE\<close> says whether its
  import succeeded. Its functions are parameters of the model; each returns the last
  entry of every array it computes, or raises.
\<close>

record TALib =
  talib_RSI :: "real list \<Rightarrow> int \<Rightarrow> py_error + xfloat"
  talib_MACD :: "real list \<Rightarrow> int \<Rightarrow> int \<Rightarrow> int \<Rightarrow> py_error + xfloat \<times> xfloat \<times> xfloat"
  talib_BBANDS :: "real list \<Rightarrow> int \<Rightarrow> real \<Rightarrow> real \<Rightarrow> py_error + xfloat \<times> xfloat \<times> xfloat"
  talib_STOCH :: "real list \<Rightarrow> real list \<Rightarrow> real list \<Rightarrow> py_error + xfloat \<times> xfloat"

record ChartExtractor =
  tech_config :: TechnicalAnalysisConfig
  talib :: "TALib option"

text \<open>
  While it is filled, the dictionary can hold \<^verbatim>\<open>None\<close>. A family takes the dictionary
  and returns it updated, together with the exception that stopped it, if any.
\<close>

type_synonym raw_indicators = "string \<rightharpoonup> xfloat option"

fun moving_average_family ::
  "real list \<Rightarrow> int list \<Rightarrow> raw_indicators \<Rightarrow> raw_indicators \<times> py_error option" where
  "moving_average_family closes [] ind = (ind, None)"
| "moving_average_family closes (period # rest) ind =
     (if int (length closes) \<ge> period then
        (case rolling mean_agg period (map Fin closes) of
           Inl err \<Rightarrow> (ind, Some err)
         | Inr means \<Rightarrow>
             (case iloc_last means of
                Inl err \<Rightarrow> (ind, Some err)
              | Inr v \<Rightarrow>
                  moving_average_family closes rest (ind(''MA_'' @ str_int period \<mapsto> Some v))))
      else moving_average_family closes rest ind)"

definition ma_step ::
  "ChartExtractor \<Rightarrow> OHLCData list \<Rightarrow> raw_indicators \<Rightarrow> raw_indicators \<times> py_error option" where
  "ma_step self df ind =
     (if flag (indicators (tech_config self)) ''moving_averages''
      then moving_average_family (map close df) (ma_periods (tech_config self)) ind
      else (ind, None))"

definition rsi_step ::
  "ChartExtractor \<Rightarrow> OHLCData list \<Rightarrow> raw_indicators \<Rightarrow> raw_indicators \<times> py_error option" where
  "rsi_step self df ind =
     (if flag (indicators (tech_config self)) ''rsi'' \<and>
         int (length df) \<ge> rsi_period (tech_config self) then
        (case talib self of
           Some lib \<Rightarrow>
             (case talib_RSI lib (map close df) (rsi_period (tech_config self)) of
                Inl err \<Rightarrow> (ind, Some err)
              | Inr v \<Rightarrow> (ind(''RSI'' \<mapsto> unless_nan v), None))
         | None \<Rightarrow>
             (ind(''RSI'' \<mapsto> calculate_rsi_manual (map close df) (rsi_period (tech_config self))),
              None))
      else (ind, None))"

definition macd_step ::
  "ChartExtractor \<Rightarrow> OHLCData list \<Rightarrow> raw_indicators \<Rightarrow> raw_indicators \<times> py_error option" where
  "macd_step self df ind =
     (if flag (indicators (tech_config self)) ''macd'' then
        (case macd_periods (tech_config self) of
           (fast, slow, signal) \<Rightarrow>
             if int (length df) \<ge> slow then
               (case talib self of
                  Some lib \<Rightarrow>
                    (case talib_MACD lib (map close df) fast slow signal of
                       Inl err \<Rightarrow> (ind, Some err)
                     | Inr (macd, macd_signal, macd_hist) \<Rightarrow>
                         (ind(''MACD'' \<mapsto> unless_nan macd,
                              ''MACD_Signal'' \<mapsto> unless_nan macd_signal,
                              ''MACD_Histogram'' \<mapsto> unless_nan macd_hist), None))
                | None \<Rightarrow>
                    (case calculate_macd_manual (map close df) fast slow signal of
                       (macd, macd_signal, macd_hist) \<Rightarrow>
                         (ind(''MACD'' \<mapsto> macd, ''MACD_Signal'' \<mapsto> macd_signal,
                              ''MACD_Histogram'' \<mapsto> macd_hist), None)))
             else (ind, None))
      else (ind, None))"

definition bollinger_step ::
  "ChartExtractor \<Rightarrow> OHLCData list \<Rightarrow> raw_indicators \<Rightarrow> raw_indicators \<times> py_error option" where
  "bollinger_step self df ind =
     (if flag (indicators (tech_config self)) ''bollinger_bands'' \<and>
         int (length df) \<ge> bb_period (tech_config self) then
        (case talib self of
           Some lib \<Rightarrow>
             (case talib_BBANDS lib (map close df) (bb_period (tech_config self))
                     (bb_std_dev (tech_config self)) (bb_std_dev (tech_config self)) of
                Inl err \<Rightarrow> (ind, Some err)
              | Inr (upper, middle, lower) \<Rightarrow>
                  (ind(''BB_Upper'' \<mapsto> unless_nan upper, ''BB_Middle'' \<mapsto> unless_nan middle,
                       ''BB_Lower'' \<mapsto> unless_nan lower), None))
         | None \<Rightarrow>
             (case calculate_bollinger_bands_manual (map close df) (bb_period (tech_config self))
                     (bb_std_dev (tech_config self)) of
                (upper, middle, lower) \<Rightarrow>
                  (ind(''BB_Upper'' \<mapsto> upper, ''BB_Middle'' \<mapsto> middle, ''BB_Lower'' \<mapsto> lower),
                   None)))
      else (ind, None))"

text \<open>The volume ratio divides numpy floats: a zero average gives an infinity or \<^verbatim>\<open>nan\<close>.\<close>

definition volume_step ::
  "ChartExtractor \<Rightarrow> OHLCData list \<Rightarrow> raw_indicators \<Rightarrow> raw_indicators \<times> py_error option" where
  "volume_step self df ind =
     (if flag (indicators (tech_config self)) ''volume'' \<and> length df \<ge> 10 then
        (case rolling mean_agg 10 (map Fin (map volume df)) of
           Inl err \<Rightarrow> (ind, Some err)
         | Inr means \<Rightarrow>
             (case iloc_last means of
                Inl err \<Rightarrow> (ind, Some err)
              | Inr volume_ma \<Rightarrow>
                  (ind(''Volume_MA'' \<mapsto> Some volume_ma,
                       ''Volume_Ratio'' \<mapsto> Some (xdiv (Fin (volume (last df))) volume_ma)),
                   None)))
      else (ind, None))"

definition stochastic_step ::
  "ChartExtractor \<Rightarrow> OHLCData list \<Rightarrow> raw_indicators \<Rightarrow> raw_indicators \<times> py_error option" where
  "stochastic_step self df ind =
     (if flag (indicators (tech_config self)) ''stochastic'' \<and> length df \<ge> 14 then
        (case talib self of
           Some lib \<Rightarrow>
             (case talib_STOCH lib (map high df) (map low df) (map close df) of
                Inl err \<Rightarrow> (ind, Some err)
              | Inr (slowk, slowd) \<Rightarrow>
                  (ind(''Stoch_K'' \<mapsto> unless_nan slowk, ''Stoch_D'' \<mapsto> unless_nan slowd), None))
         | None \<Rightarrow>
             (case calculate_stochastic_manual (map high df) (map low df) (map close df) of
                (k, d) \<Rightarrow> (ind(''Stoch_K'' \<mapsto> k, ''Stoch_D'' \<mapsto> d), None)))
      else (ind, None))"

text \<open>
  The \<^verbatim>\<open>try\<close> block: the families run in order, and the first exception ends the
  block with the dictionary as it is at that point.
\<close>

fun try_block ::
  "(raw_indicators \<Rightarrow> raw_indicators \<times> py_error option) list \<Rightarrow> raw_indicators \<Rightarrow> raw_indicators" where
  "try_block [] ind = ind"
| "try_block (step # steps) ind =
     (case step ind of
        (ind', None) \<Rightarrow> try_block steps ind'
      | (ind', Some err) \<Rightarrow> ind')"

text \<open>\<^verbatim>\<open>{k: v for k, v in indicators.items() if v is not None}\<close>\<close>

definition remove_none :: "raw_indicators \<Rightarrow> indicators" where
  "remove_none ind = (\<lambda>k. case ind k of Some (Some v) \<Rightarrow> Some v | _ \<Rightarrow> None)"

definition calculate_technical_indicators :: "ChartExtractor \<Rightarrow> ChartData \<Rightarrow> indicators" where
  "calculate_technical_indicators self chart_data =
     (if ohlc_data chart_data = [] then Map.empty
      else
        (let df = ohlc_data chart_data
         in remove_none
              (try_block [ma_step self df, rsi_step self df, macd_step self df,
                          bollinger_step self df, volume_step self df, stochastic_step self df]
                 Map.empty)))"

section \<open>Example inputs\<close>

definition demo_predictor :: ChartPredictor where
  "demo_predictor =
     \<lparr>model_config = default_model_config, trading_config = default_trading_config\<rparr>"

text \<open>A bar with all four prices equal.\<close>

definition flat_bar :: "datetime \<Rightarrow> real \<Rightarrow> OHLCData" where
  "flat_bar t p =
     \<lparr>timestamp = t, open_price = p, high = p, low = p, close = p, volume = 1000\<rparr>"

definition chart_of :: "OHLCData list \<Rightarrow> (string \<rightharpoonup> real) \<Rightarrow> ChartData" where
  "chart_of bars levels =
     \<lparr>ohlc_data = bars, price_levels = levels, timeframe = ''1d'', symbol = ''TEST'',
      extraction_confidence = 1.0\<rparr>"

definition strong_buy :: TradingSignal where
  "strong_buy =
     \<lparr>action = ''BUY'', strength = ''Strong'', entry_price = Some 107.8,
      stop_loss = Some 103.49, take_profit = Some 114.27, risk_reward_ratio = 1.5,
      signal_reasoning = ''Bullish prediction''\<rparr>"

definition low_confidence_up :: Prediction where
  "low_confidence_up =
     \<lparr>direction = ''UP'', confidence = 0.5, target_price = Some 110.0,
      time_horizon = ''24h'', reasoning = ''''\<rparr>"

text \<open>Bars whose close rises by one each bar, from 100, and bars that all close at 100.\<close>

definition rising_bars :: "nat \<Rightarrow> OHLCData list" where
  "rising_bars n = map (\<lambda>i. flat_bar i (100 + real i)) [0..<n]"

definition flat_bars :: "nat \<Rightarrow> OHLCData list" where
  "flat_bars n = map (\<lambda>i. flat_bar i 100) [0..<n]"

definition up_prediction :: Prediction where
  "up_prediction =
     \<lparr>direction = ''UP'', confidence = 0.65, target_price = Some 156.45,
      time_horizon = ''24h'', reasoning = ''Bullish signals: 1, Bearish signals: 0''\<rparr>"

text \<open>The extractor with the default configuration, TA-Lib not installed.\<close>

definition demo_extractor :: ChartExtractor where
  "demo_extractor = \<lparr>tech_config = default_technical_config, talib = None\<rparr>"

section \<open>Properties of the predictor\<close>

lemma py_round_zero: "py_round 0 n = 0"
  by (simp add: py_round_def round_half_even_def)

lemma truthy_iff: "truthy v \<longleftrightarrow> v \<noteq> Fin 0"
  by (cases v) auto

text \<open>
  C4, as the code has it. When both \<^verbatim>\<open>MACD\<close> and \<^verbatim>\<open>MACD_Signal\<close> are present and
  neither is zero, exactly one MACD vote is cast: bullish if \<^verbatim>\<open>MACD > MACD_Signal\<close>,
  bearish otherwise. When either key is absent or holds zero, no MACD vote is cast (the
  code tests \<^verbatim>\<open>if macd and macd_signal\<close>, and a zero is false).
\<close>

theorem macd_vote_when_nonzero:
  "(ta ''MACD'' = Some m \<and> ta ''MACD_Signal'' = Some g \<and> m \<noteq> Fin 0 \<and> g \<noteq> Fin 0 \<longrightarrow>
      macd_votes ta = (if xlt g m then (1, 0) else (0, 1))) \<and>
   (ta ''MACD'' = None \<or> ta ''MACD_Signal'' = None \<or>
    ta ''MACD'' = Some (Fin 0) \<or> ta ''MACD_Signal'' = Some (Fin 0) \<longrightarrow>
      macd_votes ta = (0, 0))"
  by (auto simp: macd_votes_def truthy_iff split: option.splits)

theorem macd_vote_when_nonzero_witness:
  "macd_votes [''MACD'' \<mapsto> Fin 2, ''MACD_Signal'' \<mapsto> Fin 1] = (1, 0) \<and>
   macd_votes [''MACD'' \<mapsto> Fin 1, ''MACD_Signal'' \<mapsto> Fin 2] = (0, 1) \<and>
   macd_votes [''MACD'' \<mapsto> Fin 1] = (0, 0)"
  using macd_vote_when_nonzero [of "[''MACD'' \<mapsto> Fin 2, ''MACD_Signal'' \<mapsto> Fin 1]" "Fin 2" "Fin 1"]
        macd_vote_when_nonzero [of "[''MACD'' \<mapsto> Fin 1, ''MACD_Signal'' \<mapsto> Fin 2]" "Fin 1" "Fin 2"]
        macd_vote_when_nonzero [of "[''MACD'' \<mapsto> Fin 1]"]
  by simp

text \<open>
  C4 as stated fails: with \<^verbatim>\<open>MACD = 0.0\<close> and \<^verbatim>\<open>MACD_Signal = -1.0\<close> both keys are
  present and \<^verbatim>\<open>MACD > MACD_Signal\<close>, yet no vote is cast and the prediction is
  SIDEWAYS.
\<close>

theorem macd_vote_counterexample:
  "[''MACD'' \<mapsto> Fin 0, ''MACD_Signal'' \<mapsto> Fin (- 1)] ''MACD'' = Some (Fin 0) \<and>
   [''MACD'' \<mapsto> Fin 0, ''MACD_Signal'' \<mapsto> Fin (- 1)] ''MACD_Signal'' = Some (Fin (- 1)) \<and>
   xlt (Fin (- 1)) (Fin 0) \<and>
   macd_votes [''MACD'' \<mapsto> Fin 0, ''MACD_Signal'' \<mapsto> Fin (- 1)] = (0, 0) \<and>
   count_signals (chart_of [] [''current_price'' \<mapsto> 100])
     [''MACD'' \<mapsto> Fin 0, ''MACD_Signal'' \<mapsto> Fin (- 1)] = (0, 0) \<and>
   direction (predict_price_movement demo_predictor (chart_of [] [''current_price'' \<mapsto> 100])
                [''MACD'' \<mapsto> Fin 0, ''MACD_Signal'' \<mapsto> Fin (- 1)]) = ''SIDEWAYS''"
  by (simp add: macd_votes_def predict_price_movement_def count_signals_def rsi_votes_def
        ma_votes_def Let_def)

text \<open>
  C5. With \<open>b\<close> bullish and \<open>s\<close> bearish votes counted, the direction is SIDEWAYS
  exactly when \<open>b = s\<close>, the confidence is then 0.5, and for a decided direction the
  confidence is \<open>min(0.9, 0.5 + 0.15 \<times> |b - s|)\<close>.
\<close>

theorem predict_direction_confidence:
  assumes "count_signals cd ta = (b, s)"
  shows "(direction (predict_price_movement self cd ta) = ''SIDEWAYS'' \<longleftrightarrow> b = s) \<and>
         (b = s \<longrightarrow> confidence (predict_price_movement self cd ta) = 0.5) \<and>
         (b \<noteq> s \<longrightarrow> confidence (predict_price_movement self cd ta)
             = min 0.9 (0.5 + 0.15 * \<bar>real b - real s\<bar>))"
proof -
  consider (up) "s < b" | (down) "b < s" | (tie) "b = s"
    by linarith
  then show ?thesis
  proof cases
    case up
    then have "\<bar>real b - real s\<bar> = real (b - s)" by simp
    with up assms show ?thesis
      by (simp add: predict_price_movement_def Let_def mult.commute)
  next
    case down
    then have "\<bar>real b - real s\<bar> = real (s - b)" by simp
    with down assms show ?thesis
      by (simp add: predict_price_movement_def Let_def mult.commute)
  next
    case tie
    with assms show ?thesis
      by (simp add: predict_price_movement_def Let_def)
  qed
qed

theorem predict_direction_confidence_witness:
  "count_signals (chart_of [] [''current_price'' \<mapsto> 100]) [''RSI'' \<mapsto> Fin 25] = (1, 0) \<and>
   direction (predict_price_movement demo_predictor (chart_of [] [''current_price'' \<mapsto> 100])
                [''RSI'' \<mapsto> Fin 25]) \<noteq> ''SIDEWAYS'' \<and>
   confidence (predict_price_movement demo_predictor (chart_of [] [''current_price'' \<mapsto> 100])
                 [''RSI'' \<mapsto> Fin 25]) = 0.65"
proof -
  have h: "count_signals (chart_of [] [''current_price'' \<mapsto> 100]) [''RSI'' \<mapsto> Fin 25] = (1, 0)"
    by (simp add: count_signals_def rsi_votes_def macd_votes_def ma_votes_def)
  show ?thesis
    using h predict_direction_confidence [OF h, of demo_predictor] by simp
qed

text \<open>
  C10. When \<^verbatim>\<open>price_levels\<close> has no \<^verbatim>\<open>current_price\<close>, the price is 150.0 whatever the
  bars are: the moving-average vote compares against 150.0, and the target price is
  157.5 for UP, 142.5 for DOWN and 150.0 for SIDEWAYS.
\<close>

theorem missing_current_price_default:
  assumes "price_levels cd ''current_price'' = None"
  shows "count_signals cd ta =
           (fst (rsi_votes ta) + fst (macd_votes ta) + fst (ma_votes 150 ta),
            snd (rsi_votes ta) + snd (macd_votes ta) + snd (ma_votes 150 ta)) \<and>
         (direction (predict_price_movement self cd ta) = ''UP'' \<longrightarrow>
            target_price (predict_price_movement self cd ta) = Some 157.5) \<and>
         (direction (predict_price_movement self cd ta) = ''DOWN'' \<longrightarrow>
            target_price (predict_price_movement self cd ta) = Some 142.5) \<and>
         (direction (predict_price_movement self cd ta) = ''SIDEWAYS'' \<longrightarrow>
            target_price (predict_price_movement self cd ta) = Some 150)"
proof -
  have cp: "current_price cd = 150"
    using assms by (simp add: current_price_def)
  have r: "py_round (150 * 1.05) 2 = 157.5" "py_round (150 * 0.95) 2 = 142.5"
      "py_round 150 2 = 150"
    by (simp_all add: py_round_def round_half_even_def)
  have cs: "count_signals cd ta =
           (fst (rsi_votes ta) + fst (macd_votes ta) + fst (ma_votes 150 ta),
            snd (rsi_votes ta) + snd (macd_votes ta) + snd (ma_votes 150 ta))"
    by (simp add: count_signals_def cp split: prod.splits)
  obtain b s where bs: "count_signals cd ta = (b, s)"
    by (cases "count_signals cd ta")
  have "(direction (predict_price_movement self cd ta) = ''UP'' \<longrightarrow>
            target_price (predict_price_movement self cd ta) = Some 157.5) \<and>
         (direction (predict_price_movement self cd ta) = ''DOWN'' \<longrightarrow>
            target_price (predict_price_movement self cd ta) = Some 142.5) \<and>
         (direction (predict_price_movement self cd ta) = ''SIDEWAYS'' \<longrightarrow>
            target_price (predict_price_movement self cd ta) = Some 150)"
    using r by (simp add: predict_price_movement_def bs cp Let_def)
  with cs show ?thesis by blast
qed

theorem missing_current_price_default_witness:
  "price_levels (chart_of [flat_bar 0 80] Map.empty) ''current_price'' = None \<and>
   direction (predict_price_movement demo_predictor (chart_of [flat_bar 0 80] Map.empty)
     [''RSI'' \<mapsto> Fin 25]) = ''UP'' \<and>
   target_price (predict_price_movement demo_predictor (chart_of [flat_bar 0 80] Map.empty)
     [''RSI'' \<mapsto> Fin 25]) = Some 157.5 \<and>
   direction (predict_price_movement demo_predictor (chart_of [flat_bar 0 80] Map.empty)
     [''MA_9'' \<mapsto> Fin 160, ''MA_21'' \<mapsto> Fin 170]) = ''DOWN'' \<and>
   target_price (predict_price_movement demo_predictor (chart_of [flat_bar 0 80] Map.empty)
     [''MA_9'' \<mapsto> Fin 160, ''MA_21'' \<mapsto> Fin 170]) = Some 142.5"
proof -
  have h: "price_levels (chart_of [flat_bar 0 80] Map.empty) ''current_price'' = None"
    by (simp add: chart_of_def)
  have u: "direction (predict_price_movement demo_predictor (chart_of [flat_bar 0 80] Map.empty)
     [''RSI'' \<mapsto> Fin 25]) = ''UP''"
    by (simp add: predict_price_movement_def count_signals_def rsi_votes_def macd_votes_def
          ma_votes_def Let_def)
  have d: "direction (predict_price_movement demo_predictor (chart_of [flat_bar 0 80] Map.empty)
     [''MA_9'' \<mapsto> Fin 160, ''MA_21'' \<mapsto> Fin 170]) = ''DOWN''"
    by (simp add: predict_price_movement_def count_signals_def rsi_votes_def macd_votes_def
          ma_votes_def Let_def current_price_def chart_of_def)
  show ?thesis
    using h u d
      missing_current_price_default [OF h, of "[''RSI'' \<mapsto> Fin 25]" demo_predictor]
      missing_current_price_default [OF h,
        of "[''MA_9'' \<mapsto> Fin 160, ''MA_21'' \<mapsto> Fin 170]" demo_predictor]
    by simp
qed

section \<open>Properties of the signal generator\<close>

lemma apply_trend_filter_frame:
  "action (apply_trend_filter s ta) = action s"
  "entry_price (apply_trend_filter s ta) = entry_price s"
  "stop_loss (apply_trend_filter s ta) = stop_loss s"
  "take_profit (apply_trend_filter s ta) = take_profit s"
  "risk_reward_ratio (apply_trend_filter s ta) = risk_reward_ratio s"
  by (simp_all add: apply_trend_filter_def split: option.splits)

lemma apply_volume_filter_frame:
  "action (apply_volume_filter s ta) = action s"
  "entry_price (apply_volume_filter s ta) = entry_price s"
  "stop_loss (apply_volume_filter s ta) = stop_loss s"
  "take_profit (apply_volume_filter s ta) = take_profit s"
  "risk_reward_ratio (apply_volume_filter s ta) = risk_reward_ratio s"
  by (simp_all add: apply_volume_filter_def Let_def split: option.splits)

lemma apply_trend_filter_strength:
  "strength_rank (strength (apply_trend_filter s ta)) \<le> strength_rank (strength s)"
  "known_strength (strength s) \<Longrightarrow> known_strength (strength (apply_trend_filter s ta))"
  by (simp_all add: apply_trend_filter_def strength_rank_def known_strength_def
        split: option.splits)

lemma apply_volume_filter_strength:
  "strength_rank (strength (apply_volume_filter s ta)) \<le> strength_rank (strength s)"
  "known_strength (strength s) \<Longrightarrow> known_strength (strength (apply_volume_filter s ta))"
  by (auto simp: apply_volume_filter_def strength_rank_def known_strength_def Let_def
        split: option.splits)

lemma apply_trend_filter_reasoning:
  "\<exists>suffix. signal_reasoning (apply_trend_filter s ta) = signal_reasoning s @ suffix"
  by (simp add: apply_trend_filter_def split: option.splits)

lemma apply_volume_filter_reasoning:
  "\<exists>suffix. signal_reasoning (apply_volume_filter s ta) = signal_reasoning s @ suffix"
  by (simp add: apply_volume_filter_def Let_def split: option.splits)

text \<open>
  C7. Each of the two filters leaves action, entry price, stop loss, take profit and
  risk/reward ratio as they are, never raises the strength (Strong above Medium above
  Weak) and only appends to the reasoning text.
\<close>

theorem filters_only_downgrade:
  assumes "f = apply_trend_filter \<or> f = apply_volume_filter"
  shows "action (f s ta) = action s \<and>
         entry_price (f s ta) = entry_price s \<and>
         stop_loss (f s ta) = stop_loss s \<and>
         take_profit (f s ta) = take_profit s \<and>
         risk_reward_ratio (f s ta) = risk_reward_ratio s \<and>
         strength_rank (strength (f s ta)) \<le> strength_rank (strength s) \<and>
         (known_strength (strength s) \<longrightarrow> known_strength (strength (f s ta))) \<and>
         (\<exists>suffix. signal_reasoning (f s ta) = signal_reasoning s @ suffix)"
  using assms
proof
  assume "f = apply_trend_filter"
  then show ?thesis
    using apply_trend_filter_frame [of s ta] apply_trend_filter_strength [of s ta]
      apply_trend_filter_reasoning [of s ta] by simp
next
  assume "f = apply_volume_filter"
  then show ?thesis
    using apply_volume_filter_frame [of s ta] apply_volume_filter_strength [of s ta]
      apply_volume_filter_reasoning [of s ta] by simp
qed

theorem filters_only_downgrade_witness:
  "strength (apply_trend_filter strong_buy
      [''MA_9'' \<mapsto> Fin 1, ''MA_21'' \<mapsto> Fin 2, ''MA_50'' \<mapsto> Fin 3]) = ''Weak'' \<and>
   action (apply_trend_filter strong_buy
      [''MA_9'' \<mapsto> Fin 1, ''MA_21'' \<mapsto> Fin 2, ''MA_50'' \<mapsto> Fin 3]) = ''BUY'' \<and>
   strength (apply_volume_filter strong_buy [''Volume_Ratio'' \<mapsto> Fin 1]) = ''Medium'' \<and>
   entry_price (apply_volume_filter strong_buy [''Volume_Ratio'' \<mapsto> Fin 1]) = Some 107.8 \<and>
   known_strength (strength (apply_volume_filter strong_buy [''Volume_Ratio'' \<mapsto> Fin 1]))"
proof -
  have k: "known_strength (strength strong_buy)"
    by (simp add: known_strength_def strong_buy_def)
  have w: "strength (apply_trend_filter strong_buy
      [''MA_9'' \<mapsto> Fin 1, ''MA_21'' \<mapsto> Fin 2, ''MA_50'' \<mapsto> Fin 3]) = ''Weak''"
    by (simp add: apply_trend_filter_def strong_buy_def)
  have m: "strength (apply_volume_filter strong_buy [''Volume_Ratio'' \<mapsto> Fin 1]) = ''Medium''"
    by (simp add: apply_volume_filter_def strong_buy_def Let_def)
  have a: "action strong_buy = ''BUY''" "entry_price strong_buy = Some 107.8"
    by (simp_all add: strong_buy_def)
  show ?thesis
    using k w m a
      filters_only_downgrade [of apply_trend_filter strong_buy
        "[''MA_9'' \<mapsto> Fin 1, ''MA_21'' \<mapsto> Fin 2, ''MA_50'' \<mapsto> Fin 3]"]
      filters_only_downgrade [of apply_volume_filter strong_buy "[''Volume_Ratio'' \<mapsto> Fin 1]"]
    by simp
qed

lemma generate_frame:
  assumes "generate_trading_signals self p ta = Inr s"
  shows "\<exists>s0. base_signal self p = Inr s0 \<and> action s = action s0 \<and>
           entry_price s = entry_price s0 \<and> risk_reward_ratio s = risk_reward_ratio s0"
  using assms
  by (auto simp: generate_trading_signals_def Let_def apply_trend_filter_frame
        apply_volume_filter_frame split: sum.splits if_splits)

lemma base_signal_low_confidence:
  "confidence p < 0.6 \<Longrightarrow> \<exists>s0. base_signal self p = Inr s0 \<and> action s0 = ''HOLD''"
  by (simp add: base_signal_def Let_def)

lemma when_truthy_None: "when_truthy v f = None \<longleftrightarrow> (v = None \<or> v = Some 0)"
  by (auto simp: when_truthy_def split: option.splits)

lemma base_signal_no_entry:
  assumes "base_signal self p = Inr s0" "entry_price s0 = None"
  shows "risk_reward_ratio s0 = 0"
  using assms
  by (auto simp: base_signal_def Let_def when_truthy_None py_round_zero
        split: if_splits sum.splits option.splits)

text \<open>
  C6. A prediction with confidence below 0.6 yields a HOLD signal whatever its
  direction, and a returned signal without an entry price has risk/reward ratio 0.0.
\<close>

theorem low_confidence_holds_and_no_ratio_without_entry:
  "(confidence p < 0.6 \<longrightarrow>
      (\<exists>s. generate_trading_signals self p ta = Inr s \<and> action s = ''HOLD'')) \<and>
   (\<forall>s. generate_trading_signals self p ta = Inr s \<and> entry_price s = None \<longrightarrow>
      risk_reward_ratio s = 0)"
proof (intro conjI impI allI)
  assume "confidence p < 0.6"
  then obtain s0 where "base_signal self p = Inr s0" "action s0 = ''HOLD''"
    using base_signal_low_confidence by blast
  then show "\<exists>s. generate_trading_signals self p ta = Inr s \<and> action s = ''HOLD''"
    by (simp add: generate_trading_signals_def Let_def apply_trend_filter_frame
          apply_volume_filter_frame)
next
  fix s
  assume a: "generate_trading_signals self p ta = Inr s \<and> entry_price s = None"
  then obtain s0 where "base_signal self p = Inr s0" "entry_price s = entry_price s0"
      "risk_reward_ratio s = risk_reward_ratio s0"
    using generate_frame by blast
  with a show "risk_reward_ratio s = 0"
    using base_signal_no_entry by simp
qed

theorem low_confidence_holds_and_no_ratio_without_entry_witness:
  "confidence low_confidence_up < 0.6 \<and>
   (\<exists>s. generate_trading_signals demo_predictor low_confidence_up Map.empty = Inr s \<and>
        action s = ''HOLD'' \<and> entry_price s = None \<and> risk_reward_ratio s = 0)"
proof -
  have c: "confidence low_confidence_up < 0.6"
    by (simp add: low_confidence_up_def)
  have e: "generate_trading_signals demo_predictor low_confidence_up Map.empty = Inr s \<Longrightarrow>
      entry_price s = None" for s
    by (auto simp: generate_trading_signals_def base_signal_def low_confidence_up_def Let_def
          apply_trend_filter_frame apply_volume_filter_frame split: if_splits)
  show ?thesis
    using c e
      low_confidence_holds_and_no_ratio_without_entry
        [of low_confidence_up demo_predictor Map.empty]
    by blast
qed

section \<open>Properties of the data validation\<close>

lemma price_changes_total:
  "\<forall>c\<in>set (butlast bars). close c \<noteq> 0 \<Longrightarrow> \<exists>changes. price_changes bars = Inr changes"
  by (induction bars rule: price_changes.induct) (auto simp: py_div_def)

lemma no_inconsistent_candles:
  "\<forall>c\<in>set bars. consistent_candle c \<Longrightarrow> filter (\<lambda>c. \<not> consistent_candle c) bars = []"
  by (induction bars) auto

text \<open>
  C1, as the code has it. For a non-empty series of consistent bars in which no bar
  before the last closes at zero, the validator returns the quality score
  \<open>max(0, 1 - 0.05 \<times> k)\<close>, where \<open>k\<close> is the number of gaps between a close and the next
  open that exceed 20 percent of that close. The score is exactly 1.0 when there is no
  such gap.
\<close>

theorem quality_score_of_consistent_series:
  assumes "ohlc_data cd \<noteq> []"
    and "\<forall>c\<in>set (ohlc_data cd). consistent_candle c"
    and "\<forall>c\<in>set (butlast (ohlc_data cd)). close c \<noteq> 0"
  shows "\<exists>r changes. validate_extracted_data cd = Inr r \<and>
           price_changes (ohlc_data cd) = Inr changes \<and>
           quality_score r = max 0 (1 - 0.05 * real (length (extreme_changes_of changes))) \<and>
           ((\<forall>x\<in>set changes. x \<le> 0.20) \<longrightarrow> quality_score r = 1)"
proof -
  obtain changes where ch: "price_changes (ohlc_data cd) = Inr changes"
    using price_changes_total [OF assms(3)] by blast
  have inc: "filter (\<lambda>c. \<not> consistent_candle c) (ohlc_data cd) = []"
    using no_inconsistent_candles [OF assms(2)] .
  have score: "max 0 (min 1 (1 - real k * 0.05)) = max 0 (1 - 0.05 * real k)" for k
    by (simp add: min_def max_def)
  have none: "(\<forall>x\<in>set changes. x \<le> 0.20) \<Longrightarrow> extreme_changes_of changes = []"
    by (auto simp: extreme_changes_of_def filter_empty_conv not_less)
  have "\<exists>r. validate_extracted_data cd = Inr r \<and>
          quality_score r = max 0 (1 - 0.05 * real (length (extreme_changes_of changes)))"
    using assms(1) ch inc score
    by (simp add: validate_extracted_data_def Let_def)
  then show ?thesis
    using ch none by auto
qed

theorem quality_score_of_consistent_series_witness:
  "consistent_candle (flat_bar 0 100) \<and> consistent_candle (flat_bar 1 100) \<and>
   close (flat_bar 0 100) \<noteq> 0 \<and>
   price_changes [flat_bar 0 100, flat_bar 1 100] = Inr [0] \<and>
   (\<exists>r. validate_extracted_data (chart_of [flat_bar 0 100, flat_bar 1 100] Map.empty) = Inr r \<and>
        quality_score r = 1)"
proof -
  have c: "consistent_candle (flat_bar 0 100)" "consistent_candle (flat_bar 1 100)"
    by (simp_all add: consistent_candle_def flat_bar_def)
  have z: "close (flat_bar 0 100) \<noteq> 0"
    by (simp add: flat_bar_def)
  have p: "price_changes [flat_bar 0 100, flat_bar 1 100] = Inr [0]"
    by (simp add: py_div_def flat_bar_def)
  have h1: "ohlc_data (chart_of [flat_bar 0 100, flat_bar 1 100] Map.empty) \<noteq> []"
    by (simp add: chart_of_def)
  have h2: "\<forall>c\<in>set (ohlc_data (chart_of [flat_bar 0 100, flat_bar 1 100] Map.empty)).
              consistent_candle c"
    using c by (simp add: chart_of_def)
  have h3: "\<forall>c\<in>set (butlast (ohlc_data (chart_of [flat_bar 0 100, flat_bar 1 100] Map.empty))).
              close c \<noteq> 0"
    using z by (simp add: chart_of_def)
  have "\<exists>r. validate_extracted_data (chart_of [flat_bar 0 100, flat_bar 1 100] Map.empty) = Inr r \<and>
        quality_score r = 1"
    using quality_score_of_consistent_series [OF h1 h2 h3] p
    by (auto simp: chart_of_def)
  with c z p show ?thesis by simp
qed

text \<open>
  C1 as stated fails: two consistent bars, the second opening 30 percent above the close
  of the first, score 0.95.
\<close>

theorem quality_score_counterexample:
  "consistent_candle (flat_bar 0 100) \<and> consistent_candle (flat_bar 1 130) \<and>
   validate_extracted_data (chart_of [flat_bar 0 100, flat_bar 1 130] Map.empty) =
     Inr \<lparr>is_valid = True,
          warnings = [''High number of extreme price changes detected: 1''],
          errors = [], quality_score = 0.95\<rparr>"
  by (simp add: validate_extracted_data_def extreme_changes_of_def consistent_candle_def
        flat_bar_def chart_of_def py_div_def Let_def str_nat.simps digit_char_def)

section \<open>Properties of the pattern detection\<close>

text \<open>
  C8. A series of fewer than 20 bars, the empty one included, has no patterns, whatever
  the detectors would report.
\<close>

theorem detect_patterns_short_series:
  "length (ohlc_data cd) < 20 \<Longrightarrow> detect_patterns D cd = []"
  by (simp add: detect_patterns_def)

theorem detect_patterns_short_series_witness:
  "length (ohlc_data (chart_of [flat_bar 0 100, flat_bar 1 100] Map.empty)) < 20 \<and>
   (\<forall>D. detect_patterns D (chart_of [flat_bar 0 100, flat_bar 1 100] Map.empty) = [])"
proof -
  have h: "length (ohlc_data (chart_of [flat_bar 0 100, flat_bar 1 100] Map.empty)) < 20"
    by (simp add: chart_of_def)
  show ?thesis
    using h detect_patterns_short_series [OF h] by simp
qed

section \<open>Properties of the backtester\<close>

text \<open>
  C9. On a series of fewer than 30 entries (absent data included) the backtest returns
  the empty report: every numeric field zero and the period \<^verbatim>\<open>"No data"\<close>.
\<close>

theorem backtest_short_series:
  assumes "series_length actual_data < 30"
  shows "backtest_prediction self rng p actual_data =
           \<lparr>accuracy = 0, total_predictions = 0, correct_predictions = 0, up_accuracy = 0,
            down_accuracy = 0, precision = 0, recall = 0, profit_loss = Fin 0,
            total_trades = 0, winning_trades = 0, losing_trades = 0, win_rate = 0,
            avg_win = Fin 0, avg_loss = Fin 0, max_drawdown = Fin 0, sharpe_ratio = Fin 0,
            backtest_period = ''No data''\<rparr>"
proof (cases actual_data)
  case None
  then show ?thesis
    by (simp add: backtest_prediction_def get_empty_backtest_results_def)
next
  case (Some d)
  show ?thesis
  proof (cases d)
    case (Inl bars)
    with Some assms have "length (map close bars) < 30"
      by (simp add: series_length_def)
    then have "run_backtest_simulation self rng (map close bars) (map timestamp bars) p =
        Inr get_empty_backtest_results"
      unfolding run_backtest_simulation_def by (simp only: if_True)
    with Some Inl show ?thesis
      by (simp add: backtest_prediction_def get_empty_backtest_results_def)
  next
    case (Inr price_list)
    with Some assms have "length price_list < 30"
      by (simp add: series_length_def)
    then have "run_backtest_simulation self rng price_list [0..<length price_list] p =
        Inr get_empty_backtest_results"
      unfolding run_backtest_simulation_def by (simp only: if_True)
    with Some Inr show ?thesis
      by (simp add: backtest_prediction_def get_empty_backtest_results_def)
  qed
qed

theorem backtest_short_series_witness:
  "series_length (Some (Inl (rising_bars 25))) = 25 \<and>
   backtest_period (backtest_prediction demo_predictor (\<lambda>k. 3 / 4) up_prediction
     (Some (Inl (rising_bars 25)))) = ''No data'' \<and>
   total_predictions (backtest_prediction demo_predictor (\<lambda>k. 3 / 4) up_prediction
     (Some (Inl (rising_bars 25)))) = 0"
proof -
  have n: "series_length (Some (Inl (rising_bars 25))) = 25"
    by (simp add: series_length_def rising_bars_def)
  then have h: "series_length (Some (Inl (rising_bars 25))) < 30"
    by simp
  show ?thesis
    using n backtest_short_series [OF h, of demo_predictor "\<lambda>k. 3 / 4" up_prediction]
    by simp
qed

text \<open>
  The loop bound reads \<^verbatim>\<open>time_horizon_hours\<close> from the prediction. That name is a
  property of \<^verbatim>\<open>ChartPredictor\<close>, not a field of \<^verbatim>\<open>Prediction\<close>; the lookup raises,
  \<^verbatim>\<open>backtest_prediction\<close> catches the exception, and no round of the simulation runs
  on any input.
\<close>

lemma no_time_horizon_hours:
  "getattr_Prediction p ''time_horizon_hours'' = Inl AttributeError"
  by (simp add: getattr_Prediction_def)

lemma run_backtest_simulation_raises:
  "30 \<le> length prices \<Longrightarrow>
   run_backtest_simulation self rng prices timestamps p = Inl AttributeError"
  by (simp add: run_backtest_simulation_def no_time_horizon_hours)

lemma backtest_prediction_never_simulates:
  "backtest_prediction self rng p actual_data = get_empty_backtest_results"
proof -
  have r: "(case run_backtest_simulation self rng prices timestamps p of
              Inl err \<Rightarrow> get_empty_backtest_results | Inr results \<Rightarrow> results)
           = get_empty_backtest_results"
    for prices timestamps
    by (simp add: run_backtest_simulation_def no_time_horizon_hours)
  show ?thesis
    unfolding backtest_prediction_def
    by (simp add: r split: option.splits sum.splits)
qed

text \<open>
  What the loop would do with an integer horizon \<open>h \<ge> 1\<close>: every index from 20 up to
  \<open>len - h\<close> gives one simulated prediction and one realised direction, and the
  accuracy of the report is the share of indices where the two agree.
\<close>

lemma backtest_round_appends:
  assumes "i < length prices" "0 \<le> h"
  shows "\<exists>p a ts' d'. backtest_round self rng prices h i (ps, as, ts, d) =
           (ps @ [p], as @ [a], ts', d')"
proof -
  have i: "py_index prices (int i) = Inr (prices ! i)"
    using assms(1) by (simp add: py_index_def)
  define j where "j = min (int i + h) (int (length prices) - 1)"
  have "0 \<le> j" "j < int (length prices)"
    using assms by (auto simp: j_def)
  then have j: "py_index prices j = Inr (prices ! nat j)"
    by (simp add: py_index_def)
  show ?thesis
    using i j unfolding j_def
    by (simp add: backtest_round_def Let_def split: prod.splits)
qed

lemma backtest_rounds_count:
  assumes "\<forall>i\<in>set idxs. i < length prices" "0 \<le> h"
    and "fold (backtest_round self rng prices h) idxs (ps, as, ts, d) = (ps', as', ts', d')"
  shows "length ps' = length ps + length idxs \<and> length as' = length as + length idxs"
  using assms
proof (induction idxs arbitrary: ps as ts d)
  case Nil
  then show ?case by simp
next
  case (Cons i idxs)
  from Cons.prems(1) have "i < length prices" by simp
  from backtest_round_appends [OF this Cons.prems(2)]
  obtain p a ts1 d1 where r: "backtest_round self rng prices h i (ps, as, ts, d) =
      (ps @ [p], as @ [a], ts1, d1)"
    by blast
  from Cons.prems(3) r
  have "fold (backtest_round self rng prices h) idxs (ps @ [p], as @ [a], ts1, d1) =
      (ps', as', ts', d')"
    by simp
  from Cons.IH [OF _ Cons.prems(2) this] Cons.prems(1)
  show ?case by simp
qed

lemma metrics_accuracy:
  "predictions \<noteq> [] \<Longrightarrow>
   accuracy (calculate_backtest_metrics predictions actuals trades) =
     real (length (filter (\<lambda>(p, a). p = a) (zip predictions actuals))) /
     real (length predictions) \<and>
   total_predictions (calculate_backtest_metrics predictions actuals trades) = length predictions"
  by (simp add: calculate_backtest_metrics_def Let_def)

lemma simulation_with_horizon:
  assumes "1 \<le> h"
    and "fold (backtest_round self rng prices h) [20..<nat (int (length prices) - h)]
           ([], [], [], 0) = (ps, as, ts, d)"
  shows "length ps = nat (int (length prices) - h) - 20 \<and> length as = length ps"
proof -
  have "\<forall>i\<in>set [20..<nat (int (length prices) - h)]. i < length prices"
    using assms(1) by auto
  from backtest_rounds_count [OF this _ assms(2)] assms(1)
  show ?thesis by simp
qed

text \<open>
  C2 at a failing input: fifty bars and the default horizon of 24 hours. The claim
  asks for one simulated prediction for each of the six indices 20 to 25; the code
  returns the empty report with no prediction at all.
\<close>

theorem backtest_long_series_empty:
  "length (rising_bars 50) = 50 \<and>
   prediction_horizon (model_config demo_predictor) = 24 \<and>
   [20..<nat (int (length (rising_bars 50)) - prediction_horizon (model_config demo_predictor))]
     = [20, 21, 22, 23, 24, 25] \<and>
   backtest_prediction demo_predictor (\<lambda>k. 3 / 4) up_prediction (Some (Inl (rising_bars 50)))
     = get_empty_backtest_results \<and>
   total_predictions (backtest_prediction demo_predictor (\<lambda>k. 3 / 4) up_prediction
     (Some (Inl (rising_bars 50)))) = 0 \<and>
   backtest_period (backtest_prediction demo_predictor (\<lambda>k. 3 / 4) up_prediction
     (Some (Inl (rising_bars 50)))) = ''No data''"
proof -
  have n: "length (rising_bars 50) = 50"
    by (simp add: rising_bars_def)
  have h: "prediction_horizon (model_config demo_predictor) = 24"
    by (simp add: demo_predictor_def default_model_config_def)
  have r: "[20..<nat (int (length (rising_bars 50)) - prediction_horizon (model_config demo_predictor))]
     = [20, 21, 22, 23, 24, 25]"
    unfolding n h by (simp add: upt_rec)
  have s: "run_backtest_simulation demo_predictor (\<lambda>k. 3 / 4) (map close (rising_bars 50))
      (map timestamp (rising_bars 50)) up_prediction = Inl AttributeError"
    using n by (simp add: run_backtest_simulation_def getattr_Prediction_def)
  have b: "backtest_prediction demo_predictor (\<lambda>k. 3 / 4) up_prediction (Some (Inl (rising_bars 50)))
     = get_empty_backtest_results"
    using n s by (auto simp: backtest_prediction_def)
  show ?thesis
    using n h r b by (simp add: get_empty_backtest_results_def)
qed

section \<open>Properties of the indicators\<close>

lemma rolling_result:
  assumes "0 \<le> w" "xs \<noteq> []"
  shows "\<exists>ys. rolling agg w xs = Inr ys \<and> length ys = length xs \<and>
              last ys = rolling_at agg (nat w) xs"
proof -
  from assms(2) obtain n where n: "length xs = Suc n"
    by (cases xs) auto
  have "last (map (\<lambda>t. rolling_at agg (nat w) (take (Suc t) xs)) [0..<Suc n]) =
        rolling_at agg (nat w) (take (Suc n) xs)"
    by (simp del: upt_Suc add: last_map)
  with assms(1) n show ?thesis
    by (simp add: rolling_def del: upt_Suc)
qed

lemma length_series_diff [simp]: "length (series_diff xs) = length xs"
  by (cases xs) (simp_all add: series_diff_def)

lemma length_rsi_gains [simp]: "length (rsi_gains prices) = length prices"
  by (simp add: rsi_gains_def)

lemma length_rsi_losses [simp]: "length (rsi_losses prices) = length prices"
  by (simp add: rsi_losses_def)

lemma last_map_zip:
  assumes "length as = length bs" "as \<noteq> []"
  shows "last (map (\<lambda>(a, b). f a b) (zip as bs)) = f (last as) (last bs)"
  using assms
proof (induction as arbitrary: bs)
  case Nil
  then show ?case by simp
next
  case (Cons a as)
  then obtain b bs' where bs: "bs = b # bs'" "length as = length bs'"
    by (cases bs) auto
  show ?case
  proof (cases "as = []")
    case True
    with bs show ?thesis by simp
  next
    case False
    with bs have "bs' \<noteq> []" "zip as bs' \<noteq> []"
      by (cases as; cases bs'; simp)+
    with False bs Cons.IH [of bs'] show ?thesis by simp
  qed
qed

lemma calculate_rsi_manual_last:
  assumes "prices \<noteq> []" "0 \<le> period"
  shows "calculate_rsi_manual prices period =
           round_unless_na
             (rsi_formula (rolling_at mean_agg (nat period) (rsi_gains prices))
                          (rolling_at mean_agg (nat period) (rsi_losses prices))) 2"
proof -
  have "length (rsi_gains prices) \<noteq> 0" "length (rsi_losses prices) \<noteq> 0"
    using assms(1) by simp_all
  then have g0: "rsi_gains prices \<noteq> []" and l0: "rsi_losses prices \<noteq> []"
    by fastforce+
  obtain gain where gain: "rolling mean_agg period (rsi_gains prices) = Inr gain"
      "length gain = length prices"
      "last gain = rolling_at mean_agg (nat period) (rsi_gains prices)"
    using rolling_result [OF assms(2) g0, of mean_agg] by auto
  obtain loss where loss: "rolling mean_agg period (rsi_losses prices) = Inr loss"
      "length loss = length prices"
      "last loss = rolling_at mean_agg (nat period) (rsi_losses prices)"
    using rolling_result [OF assms(2) l0, of mean_agg] by auto
  have ne: "gain \<noteq> []" using gain(2) assms(1) by auto
  have len: "length gain = length loss" using gain(2) loss(2) by simp
  have z: "zip gain loss \<noteq> []" using ne len by (cases gain; cases loss) auto
  show ?thesis
    using last_map_zip [OF len ne, of rsi_formula] gain loss z
    by (simp add: calculate_rsi_manual_def iloc_last_def)
qed

lemma rsi_formula_no_loss:
  "rsi_formula (Fin g) (Fin 0) = (if g = 0 then NaN else Fin 100)"
  by (simp add: rsi_formula_def xsub_def)

lemma py_round_100: "py_round 100 2 = 100"
  by (simp add: py_round_def round_half_even_def)


lemma series_diff_values:
  assumes "x \<in> set (series_diff (map Fin prices))"
  shows "x = NaN \<or> (\<exists>r. x = Fin r)"
proof (cases prices)
  case Nil
  with assms show ?thesis by (simp add: series_diff_def)
next
  case (Cons p rest)
  have "zip (map Fin (p # rest)) (map Fin rest) =
        map (\<lambda>(a, b). (Fin a, Fin b)) (zip (p # rest) rest)"
    by (simp only: zip_map_map)
  then have "series_diff (map Fin prices) =
      NaN # map (\<lambda>(a, b). Fin (b - a)) (zip (p # rest) rest)"
    using Cons by (simp add: series_diff_def xsub_def case_prod_unfold)
  with assms show ?thesis by auto
qed

lemma rsi_gains_nonneg:
  "x \<in> set (rsi_gains prices) \<Longrightarrow> \<exists>r. x = Fin r \<and> 0 \<le> r"
  using series_diff_values [of _ prices]
  by (fastforce simp: rsi_gains_def)

lemma finite_values_nonneg:
  "\<forall>x\<in>set xs. \<exists>r. x = Fin r \<and> 0 \<le> r \<Longrightarrow>
   length (finite_values xs) = length xs \<and> (\<forall>r\<in>set (finite_values xs). 0 \<le> r)"
  by (induction xs) auto

lemma rolling_mean_nonneg:
  assumes "\<forall>x\<in>set xs. \<exists>r. x = Fin r \<and> 0 \<le> r" "0 < w" "w \<le> length xs"
  shows "\<exists>g. rolling_at mean_agg w xs = Fin g \<and> 0 \<le> g"
proof -
  have sub: "set (last_n w xs) \<subseteq> set xs"
    by (simp add: last_n_def set_drop_subset)
  have len: "length (last_n w xs) = w"
    using assms(3) by (simp add: last_n_def)
  from assms(1) sub have "\<forall>x\<in>set (last_n w xs). \<exists>r. x = Fin r \<and> 0 \<le> r"
    by blast
  from finite_values_nonneg [OF this] len
  have fv: "length (finite_values (last_n w xs)) = w"
      "\<forall>r\<in>set (finite_values (last_n w xs)). 0 \<le> r"
    by simp_all
  have "0 \<le> sum_list (finite_values (last_n w xs))"
    using fv(2) by (simp add: sum_list_nonneg)
  then have "0 \<le> sum_list (finite_values (last_n w xs)) / real w"
    by simp
  with fv(1) assms(2,3) show ?thesis
    by (simp add: rolling_at_def mean_agg_def Let_def)
qed

lemma ma_family_keeps_rsi:
  "fst (moving_average_family closes ps ind) ''RSI'' = ind ''RSI''"
  by (induction ps arbitrary: ind) (auto split: sum.splits)

lemma ma_family_no_error:
  "closes \<noteq> [] \<Longrightarrow> \<forall>p\<in>set ps. 0 \<le> p \<Longrightarrow> snd (moving_average_family closes ps ind) = None"
proof (induction ps arbitrary: ind)
  case Nil
  then show ?case by simp
next
  case (Cons p ps)
  from Cons.prems have p: "0 \<le> p" by simp
  from Cons.prems(1) have ne: "map Fin closes \<noteq> []" by simp
  obtain ys where ys: "rolling mean_agg p (map Fin closes) = Inr ys" "length ys = length (map Fin closes)"
    using rolling_result [OF p ne, of mean_agg] by blast
  with Cons.prems(1) have "ys \<noteq> []" by auto
  with ys Cons show ?case
    by (simp add: iloc_last_def)
qed

lemma later_steps_keep_rsi:
  "fst (macd_step self df ind) ''RSI'' = ind ''RSI''"
  "fst (bollinger_step self df ind) ''RSI'' = ind ''RSI''"
  "fst (volume_step self df ind) ''RSI'' = ind ''RSI''"
  "fst (stochastic_step self df ind) ''RSI'' = ind ''RSI''"
  by (auto simp: macd_step_def bollinger_step_def volume_step_def stochastic_step_def
        split: option.splits sum.splits prod.splits)

lemma try_block_keeps:
  "(\<And>step ind. step \<in> set steps \<Longrightarrow> fst (step ind) k = ind k) \<Longrightarrow> try_block steps ind k = ind k"
proof (induction steps arbitrary: ind)
  case Nil
  then show ?case by simp
next
  case (Cons step steps)
  obtain ind' e where st: "step ind = (ind', e)" by (cases "step ind")
  have k: "ind' k = ind k"
    using Cons.prems [of step ind] st by simp
  show ?case
  proof (cases e)
    case None
    with st k Cons.IH [of ind'] Cons.prems show ?thesis by simp
  next
    case (Some err)
    with st k show ?thesis by simp
  qed
qed

lemma indicators_rsi_key:
  assumes "talib self = None"
    and "flag (indicators (tech_config self)) ''rsi''"
    and "rsi_period (tech_config self) \<le> int (length (ohlc_data cd))"
    and "ohlc_data cd \<noteq> []"
    and "\<forall>p\<in>set (ma_periods (tech_config self)). 0 \<le> p"
  shows "calculate_technical_indicators self cd ''RSI'' =
           calculate_rsi_manual (map close (ohlc_data cd)) (rsi_period (tech_config self))"
proof -
  define df where "df = ohlc_data cd"
  define v where "v = calculate_rsi_manual (map close df) (rsi_period (tech_config self))"
  obtain ind1 e1 where ma: "ma_step self df Map.empty = (ind1, e1)"
    by (cases "ma_step self df Map.empty")
  have e1: "e1 = None"
    using ma assms(4,5) ma_family_no_error [of "map close df" "ma_periods (tech_config self)" Map.empty]
    by (auto simp: ma_step_def df_def split: if_splits)
  have i1: "ind1 ''RSI'' = None"
    using ma ma_family_keeps_rsi [of "map close df" "ma_periods (tech_config self)" Map.empty]
    by (auto simp: ma_step_def split: if_splits)
  have rsi: "rsi_step self df ind1 = (ind1(''RSI'' \<mapsto> v), None)"
    using assms(1,2,3) by (simp add: rsi_step_def v_def df_def)
  have later: "try_block [macd_step self df, bollinger_step self df, volume_step self df,
                 stochastic_step self df] (ind1(''RSI'' \<mapsto> v)) ''RSI'' = Some v"
    using try_block_keeps [of "[macd_step self df, bollinger_step self df, volume_step self df,
                 stochastic_step self df]" "''RSI''" "ind1(''RSI'' \<mapsto> v)"]
      later_steps_keep_rsi [of self df]
    by auto
  have "try_block [ma_step self df, rsi_step self df, macd_step self df,
                   bollinger_step self df, volume_step self df, stochastic_step self df]
          Map.empty ''RSI'' = Some v"
    using ma e1 rsi later by simp
  then show ?thesis
    using assms(4)
    by (cases v) (simp_all add: calculate_technical_indicators_def remove_none_def Let_def
        df_def [symmetric] v_def [symmetric])
qed


lemma closes_rising: "map close (rising_bars 16) = map (\<lambda>i. 100 + real i) [0..<16]"
  by (simp add: rising_bars_def flat_bar_def)

lemma losses_rising:
  "rolling_at mean_agg 14 (rsi_losses (map close (rising_bars 16))) = Fin 0"
  unfolding closes_rising
  by (simp add: rsi_losses_def series_diff_def rolling_at_def last_n_def mean_agg_def
        xsub_def upt_rec Let_def)

lemma gains_rising:
  "rolling_at mean_agg 14 (rsi_gains (map close (rising_bars 16))) = Fin 1"
  unfolding closes_rising
  by (simp add: rsi_gains_def series_diff_def rolling_at_def last_n_def mean_agg_def
        xsub_def upt_rec Let_def)

lemma closes_flat: "map close (flat_bars 16) = map (\<lambda>i. 100) [0..<16]"
  by (simp add: flat_bars_def flat_bar_def)

lemma losses_flat:
  "rolling_at mean_agg 14 (rsi_losses (map close (flat_bars 16))) = Fin 0"
  unfolding closes_flat
  by (simp add: rsi_losses_def series_diff_def rolling_at_def last_n_def mean_agg_def
        xsub_def upt_rec Let_def)

lemma gains_flat:
  "rolling_at mean_agg 14 (rsi_gains (map close (flat_bars 16))) = Fin 0"
  unfolding closes_flat
  by (simp add: rsi_gains_def series_diff_def rolling_at_def last_n_def mean_agg_def
        xsub_def upt_rec Let_def)

text \<open>
  C3, as the code has it, for the helpers that run without TA-Lib. Let RSI be enabled,
  the period at least one and at most the number of bars, and no moving-average period
  negative. If the average loss over the RSI period is 0, the average gain is a
  non-negative number; when it is 0 as well the quotient is \<^verbatim>\<open>nan\<close> and the map has no
  \<^verbatim>\<open>RSI\<close> key, and when it is positive the quotient is infinite and the map holds
  \<^verbatim>\<open>RSI = 100.0\<close>.
\<close>

theorem rsi_without_losses:
  assumes "talib self = None"
    and "flag (indicators (tech_config self)) ''rsi''"
    and "1 \<le> rsi_period (tech_config self)"
    and "rsi_period (tech_config self) \<le> int (length (ohlc_data cd))"
    and "\<forall>p\<in>set (ma_periods (tech_config self)). 0 \<le> p"
    and "rolling_at mean_agg (nat (rsi_period (tech_config self)))
           (rsi_losses (map close (ohlc_data cd))) = Fin 0"
  shows "\<exists>g. rolling_at mean_agg (nat (rsi_period (tech_config self)))
               (rsi_gains (map close (ohlc_data cd))) = Fin g \<and> 0 \<le> g \<and>
             (g = 0 \<longrightarrow> calculate_technical_indicators self cd ''RSI'' = None) \<and>
             (0 < g \<longrightarrow> calculate_technical_indicators self cd ''RSI'' = Some (Fin 100))"
proof -
  define period where "period = rsi_period (tech_config self)"
  define closes where "closes = map close (ohlc_data cd)"
  have ne: "ohlc_data cd \<noteq> []"
    using assms(3,4) by auto
  then have cne: "closes \<noteq> []"
    by (simp add: closes_def)
  have key: "calculate_technical_indicators self cd ''RSI'' = calculate_rsi_manual closes period"
    unfolding closes_def period_def
    by (rule indicators_rsi_key [OF assms(1) assms(2) assms(4) ne assms(5)])
  have w: "0 < nat period" "nat period \<le> length (rsi_gains closes)"
    using assms(3,4) by (simp_all add: period_def closes_def)
  obtain g where g: "rolling_at mean_agg (nat period) (rsi_gains closes) = Fin g" "0 \<le> g"
    using rolling_mean_nonneg [OF _ w] rsi_gains_nonneg [of _ closes] by blast
  have p0: "0 \<le> period"
    using assms(3) by (simp add: period_def)
  have rsi: "calculate_rsi_manual closes period =
      round_unless_na (if g = 0 then NaN else Fin 100) 2"
    using calculate_rsi_manual_last [OF cne p0] g(1) assms(6)
    by (simp add: rsi_formula_no_loss period_def closes_def)
  have "g = 0 \<longrightarrow> calculate_technical_indicators self cd ''RSI'' = None"
    using key rsi by (simp add: round_unless_na_def)
  moreover have "0 < g \<longrightarrow> calculate_technical_indicators self cd ''RSI'' = Some (Fin 100)"
    using key rsi by (simp add: round_unless_na_def py_round_100)
  ultimately show ?thesis
    using g unfolding period_def closes_def by blast
qed

theorem rsi_without_losses_witness:
  "talib demo_extractor = None \<and>
   flag (indicators (tech_config demo_extractor)) ''rsi'' \<and>
   rsi_period (tech_config demo_extractor) = 14 \<and>
   rolling_at mean_agg 14 (rsi_losses (map close (flat_bars 16))) = Fin 0 \<and>
   rolling_at mean_agg 14 (rsi_gains (map close (flat_bars 16))) = Fin 0 \<and>
   calculate_technical_indicators demo_extractor (chart_of (flat_bars 16) Map.empty) ''RSI''
     = None"
proof -
  have c: "talib demo_extractor = None"
      "flag (indicators (tech_config demo_extractor)) ''rsi''"
      "rsi_period (tech_config demo_extractor) = 14"
      "\<forall>p\<in>set (ma_periods (tech_config demo_extractor)). 0 \<le> p"
    by (simp_all add: demo_extractor_def default_technical_config_def flag_def)
  have d: "ohlc_data (chart_of (flat_bars 16) Map.empty) = flat_bars 16"
      "length (flat_bars 16) = 16"
    by (simp_all add: chart_of_def flat_bars_def)
  have h3: "1 \<le> rsi_period (tech_config demo_extractor)"
    and h4: "rsi_period (tech_config demo_extractor)
               \<le> int (length (ohlc_data (chart_of (flat_bars 16) Map.empty)))"
    and h6: "rolling_at mean_agg (nat (rsi_period (tech_config demo_extractor)))
               (rsi_losses (map close (ohlc_data (chart_of (flat_bars 16) Map.empty)))) = Fin 0"
    using losses_flat by (simp_all add: c(3) d)
  have "calculate_technical_indicators demo_extractor (chart_of (flat_bars 16) Map.empty) ''RSI''
     = None"
    using rsi_without_losses [OF c(1) c(2) h3 h4 c(4) h6] gains_flat
    by (auto simp: c(3) d)
  with c losses_flat gains_flat show ?thesis by simp
qed

text \<open>
  C3 as stated fails: sixteen bars closing at 100, 101, \<dots>, 115 with the default
  configuration have RSI enabled, at least 14 bars and an average loss of 0 over the
  period, and the map holds \<^verbatim>\<open>RSI = 100.0\<close>.
\<close>

theorem rsi_without_losses_counterexample:
  "flag (indicators (tech_config demo_extractor)) ''rsi'' \<and>
   rsi_period (tech_config demo_extractor) = 14 \<and>
   length (ohlc_data (chart_of (rising_bars 16) Map.empty)) = 16 \<and>
   rolling_at mean_agg 14
     (rsi_losses (map close (ohlc_data (chart_of (rising_bars 16) Map.empty)))) = Fin 0 \<and>
   calculate_technical_indicators demo_extractor (chart_of (rising_bars 16) Map.empty) ''RSI''
     = Some (Fin 100)"
proof -
  have c: "talib demo_extractor = None"
      "flag (indicators (tech_config demo_extractor)) ''rsi''"
      "rsi_period (tech_config demo_extractor) = 14"
      "\<forall>p\<in>set (ma_periods (tech_config demo_extractor)). 0 \<le> p"
    by (simp_all add: demo_extractor_def default_technical_config_def flag_def)
  have d: "ohlc_data (chart_of (rising_bars 16) Map.empty) = rising_bars 16"
      "length (rising_bars 16) = 16"
    by (simp_all add: chart_of_def rising_bars_def)
  have ne: "ohlc_data (chart_of (rising_bars 16) Map.empty) \<noteq> []"
    using d by auto
  have cne: "map close (rising_bars 16) \<noteq> []"
    using d(2) by auto
  have h4: "rsi_period (tech_config demo_extractor)
              \<le> int (length (ohlc_data (chart_of (rising_bars 16) Map.empty)))"
    by (simp add: c(3) d)
  have "calculate_technical_indicators demo_extractor (chart_of (rising_bars 16) Map.empty) ''RSI''
      = calculate_rsi_manual (map close (rising_bars 16)) 14"
    using indicators_rsi_key [OF c(1) c(2) h4 ne c(4)] by (simp add: c(3) d)
  also have "\<dots> = round_unless_na (rsi_formula (Fin 1) (Fin 0)) 2"
    using calculate_rsi_manual_last [OF cne, of 14] gains_rising losses_rising by simp
  also have "\<dots> = Some (Fin 100)"
    by (simp add: rsi_formula_no_loss round_unless_na_def py_round_100)
  finally show ?thesis
    using c d losses_rising by simp
qed


end
